theory Spec2Isabelle
  imports Main "HOL-Library.Word" "HOL-Library.AList"
begin

unbundle bit_operations_syntax

section \<open>Traffic accounting: the persistent store\<close>

text \<open>
  Instants of Go's \<^verbatim>\<open>time.Time\<close> are integers counting nanoseconds on the process
  clock; a \<^verbatim>\<open>time.Duration\<close> is a difference of two of them.
\<close>

type_synonym time = int

text \<open>
  A \<^verbatim>\<open>time.Time\<close> is an instant together with the offset from UTC (in seconds, east
  positive) that its location has at that instant. The driver writes it to the store as
  the text \<^verbatim>\<open>2006-01-02 15:04:05.999999999-07:00\<close> of the local date and time followed
  by the offset.
\<close>

record stamp =
  instant :: time
  zone_offset :: int

text \<open>The local date and time of a stamp, as nanoseconds.\<close>

definition wall :: "stamp \<Rightarrow> int" where
  "wall t = instant t + zone_offset t * 1000000000"

text \<open>
  The store compares two such texts byte by byte. The date and time have a fixed width (for
  the years 0000 to 9999) and a fraction without trailing zeros, so the texts compare as
  the local dates and times do; when these are equal the offsets decide, as texts. Go
  writes the offset in whole minutes (\<^verbatim>\<open>offset / 60\<close>, truncated), with \<^verbatim>\<open>-\<close> when
  the minutes are negative and \<^verbatim>\<open>+\<close> otherwise: a \<^verbatim>\<open>+\<close> sorts before a \<^verbatim>\<open>-\<close>, and
  then the digits decide.
\<close>

definition offset_minutes :: "int \<Rightarrow> int" where
  "offset_minutes a = (if a < 0 then - ((- a) div 60) else a div 60)"

definition offset_text_before :: "int \<Rightarrow> int \<Rightarrow> bool" where
  "offset_text_before a b =
     (let za = offset_minutes a; zb = offset_minutes b
      in (0 \<le> za \<and> zb < 0) \<or> (0 \<le> za \<and> 0 \<le> zb \<and> za < zb) \<or> (za < 0 \<and> zb < 0 \<and> zb < za))"

definition text_before :: "stamp \<Rightarrow> stamp \<Rightarrow> bool" where
  "text_before a b =
     (wall a < wall b \<or> (wall a = wall b \<and> offset_text_before (zone_offset a) (zone_offset b)))"

text \<open>
  The three tables of \<^verbatim>\<open>internal/database/db.go\<close> that the collector writes. SQLite
  \<^verbatim>\<open>INTEGER\<close> columns hold mathematical integers here; a nullable column is an option.
\<close>

record ConnectionStats =
  ID :: int
  ClientIP :: string
  TargetAddr :: string
  Country :: string
  City :: string
  BytesIn :: int
  BytesOut :: int
  ConnectedAt :: stamp
  DisconnectedAt :: "stamp option"
  Duration :: "int option"

record ServerStats =
  StartTime :: time
  TotalConnections :: int
  TotalBytesIn :: int
  TotalBytesOut :: int
  UpdatedAt :: time

record GeoStats =
  GeoCountry :: string
  CountryName :: string
  Connections :: int
  TotalBytes :: int
  LastUpdated :: time

text \<open>
  \<open>conn_seq\<close> is the \<^verbatim>\<open>AUTOINCREMENT\<close> sequence of \<^verbatim>\<open>connections\<close>; the
  \<^verbatim>\<open>server_stats\<close> table holds at most the row with id 1; \<^verbatim>\<open>geo_stats\<close> is keyed
  by country.
\<close>

record database =
  connections :: "ConnectionStats list"
  conn_seq :: int
  server_stats :: "ServerStats option"
  geo_stats :: "GeoStats list"

text \<open>
  What the store answers to one statement: whether it executed (\<^verbatim>\<open>err == nil\<close>) and
  the value of its own \<^verbatim>\<open>datetime('now')\<close>.
\<close>

record stmt =
  stmt_ok :: bool
  stmt_time :: time

section \<open>Traffic accounting: tracker and collector\<close>

record ConnectionTracker =
  tracker_id :: "64 word"
  country :: string
  bytesIn :: "64 word"
  bytesOut :: "64 word"
  startTime :: stamp
  closed :: bool

text \<open>
  The collector, together with the tracker objects it points to: \<open>trackers\<close> is the heap
  of \<^verbatim>\<open>*ConnectionTracker\<close> (a reference is an index), \<open>activeConns\<close> the
  \<^verbatim>\<open>sync.Map\<close> from connection id to reference. \<open>has_geoip\<close> says whether the
  \<^verbatim>\<open>geoip\<close> field is non-nil.
\<close>

record StatsCollector =
  db :: database
  has_geoip :: bool
  activeConns :: "(64 word \<times> nat) list"
  serverStartTime :: time
  retentionDays :: int
  activeCount :: "32 word"
  totalConns :: "64 word"
  trackers :: "ConnectionTracker list"

text \<open>
  Following a reference. The program only holds references that \<^verbatim>\<open>TrackConnection\<close>
  returned; an operation on any other reference is modelled as doing nothing.
\<close>

definition deref :: "StatsCollector \<Rightarrow> nat \<Rightarrow> ConnectionTracker option" where
  "deref sc a = (if a < length (trackers sc) then Some (trackers sc ! a) else None)"

subsection \<open>GeoIP country names\<close>

definition GetCountryName :: "string \<Rightarrow> string" where
  "GetCountryName countryCode =
     (case map_of
        [(''RU'', ''Russia''), (''US'', ''United States''), (''DE'', ''Germany''),
         (''GB'', ''United Kingdom''), (''FR'', ''France''), (''NL'', ''Netherlands''),
         (''CN'', ''China''), (''JP'', ''Japan''), (''KR'', ''South Korea''),
         (''IN'', ''India''), (''BR'', ''Brazil''), (''CA'', ''Canada''),
         (''AU'', ''Australia''), (''IT'', ''Italy''), (''ES'', ''Spain''),
         (''PL'', ''Poland''), (''UA'', ''Ukraine''), (''TR'', ''Turkey''),
         (''SE'', ''Sweden''), (''NO'', ''Norway'')] countryCode of
        Some name \<Rightarrow> name
      | None \<Rightarrow> countryCode)"

subsection \<open>Aggregate updates\<close>

text \<open>\<^verbatim>\<open>INSERT OR IGNORE INTO server_stats (id, ...) VALUES (1, ?, 0, 0, 0)\<close>\<close>

definition initServerStats :: "stmt \<Rightarrow> StatsCollector \<Rightarrow> StatsCollector" where
  "initServerStats r sc =
     (if stmt_ok r \<and> server_stats (db sc) = None
      then sc\<lparr>db := (db sc)\<lparr>server_stats :=
             Some \<lparr>StartTime = serverStartTime sc, TotalConnections = 0, TotalBytesIn = 0,
                   TotalBytesOut = 0, UpdatedAt = stmt_time r\<rparr>\<rparr>\<rparr>
      else sc)"

text \<open>
  \<^verbatim>\<open>UPDATE server_stats SET total_connections = total_connections + ?, ... WHERE id = 1\<close>;
  a failing statement is logged and changes nothing.
\<close>

definition updateServerStats :: "stmt \<Rightarrow> int \<Rightarrow> int \<Rightarrow> int \<Rightarrow> StatsCollector \<Rightarrow> StatsCollector" where
  "updateServerStats r connDelta bytesIn' bytesOut' sc =
     (if stmt_ok r
      then sc\<lparr>db := (db sc)\<lparr>server_stats :=
             map_option (\<lambda>row. row\<lparr>TotalConnections := TotalConnections row + connDelta,
                                    TotalBytesIn := TotalBytesIn row + bytesIn',
                                    TotalBytesOut := TotalBytesOut row + bytesOut',
                                    UpdatedAt := stmt_time r\<rparr>)
               (server_stats (db sc))\<rparr>\<rparr>
      else sc)"

text \<open>
  \<^verbatim>\<open>INSERT INTO geo_stats ... ON CONFLICT(country) DO UPDATE SET connections = connections + ?,
  total_bytes = total_bytes + ?, last_updated = datetime('now')\<close>
\<close>

fun geo_upsert :: "string \<Rightarrow> string \<Rightarrow> int \<Rightarrow> int \<Rightarrow> time \<Rightarrow> GeoStats list \<Rightarrow> GeoStats list" where
  "geo_upsert c name connDelta bytes now [] =
     [\<lparr>GeoCountry = c, CountryName = name, Connections = connDelta, TotalBytes = bytes,
       LastUpdated = now\<rparr>]"
| "geo_upsert c name connDelta bytes now (g # gs) =
     (if GeoCountry g = c
      then g\<lparr>Connections := Connections g + connDelta, TotalBytes := TotalBytes g + bytes,
             LastUpdated := now\<rparr> # gs
      else g # geo_upsert c name connDelta bytes now gs)"

definition updateGeoStats :: "stmt \<Rightarrow> string \<Rightarrow> int \<Rightarrow> bool \<Rightarrow> StatsCollector \<Rightarrow> StatsCollector" where
  "updateGeoStats r c bytes incrementConnections sc =
     (if c = '''' \<or> c = ''Unknown'' then sc
      else
        let countryName = (if has_geoip sc then GetCountryName c else c);
            connDelta = (if incrementConnections then 1 else 0)
        in if stmt_ok r
           then sc\<lparr>db := (db sc)\<lparr>geo_stats :=
                  geo_upsert c countryName connDelta bytes (stmt_time r) (geo_stats (db sc))\<rparr>\<rparr>
           else sc)"

subsection \<open>Creating a tracker\<close>

text \<open>
  What \<^verbatim>\<open>TrackConnection\<close> receives from outside: the answer of
  \<^verbatim>\<open>geoip.GetLocation\<close> (\<open>None\<close> for an error), the clock, and the store's answers to
  the \<^verbatim>\<open>INSERT\<close> and to the two aggregate statements.
\<close>

record track_env =
  te_location :: "(string \<times> string) option"
  te_now :: stamp
  te_insert_ok :: bool
  te_server :: stmt
  te_geo :: stmt

text \<open>The country and city \<^verbatim>\<open>TrackConnection\<close> settles on before it inserts the record.\<close>

definition locate :: "track_env \<Rightarrow> StatsCollector \<Rightarrow> string \<times> string" where
  "locate env sc =
     (if has_geoip sc
      then (case te_location env of
              Some loc \<Rightarrow> loc
            | None \<Rightarrow> (''Unknown'', ''''))
      else (''Unknown'', ''''))"

definition TrackConnection ::
  "track_env \<Rightarrow> string \<Rightarrow> string \<Rightarrow> StatsCollector \<Rightarrow> nat option \<times> StatsCollector" where
  "TrackConnection env clientIP targetAddr sc =
     (let (country', city') = locate env sc;
          connectedAt = te_now env
      in if \<not> te_insert_ok env then (None, sc)
         else
           let connID = conn_seq (db sc) + 1;
               row = \<lparr>ID = connID, ClientIP = clientIP, TargetAddr = targetAddr,
                      Country = country', City = city', BytesIn = 0, BytesOut = 0,
                      ConnectedAt = connectedAt, DisconnectedAt = None, Duration = None\<rparr>;
               sc1 = sc\<lparr>db := (db sc)\<lparr>connections := connections (db sc) @ [row],
                                        conn_seq := connID\<rparr>\<rparr>;
               sc2 = sc1\<lparr>activeCount := activeCount sc1 + 1\<rparr>;
               sc3 = sc2\<lparr>totalConns := totalConns sc2 + 1\<rparr>;
               sc4 = updateServerStats (te_server env) 1 0 0 sc3;
               sc5 = updateGeoStats (te_geo env) country' 0 True sc4;
               tracker = \<lparr>tracker_id = word_of_int connID, country = country', bytesIn = 0,
                          bytesOut = 0, startTime = connectedAt, closed = False\<rparr>;
               ref = length (trackers sc5);
               sc6 = sc5\<lparr>trackers := trackers sc5 @ [tracker]\<rparr>;
               sc7 = sc6\<lparr>activeConns := AList.update (tracker_id tracker) ref (activeConns sc6)\<rparr>
           in (Some ref, sc7))"

text \<open>
  The tracker and the connection record that \<^verbatim>\<open>TrackConnection\<close> creates, for stating
  what it does.
\<close>

definition new_tracker :: "track_env \<Rightarrow> StatsCollector \<Rightarrow> ConnectionTracker" where
  "new_tracker env sc = \<lparr>tracker_id = word_of_int (conn_seq (db sc) + 1),
     country = fst (locate env sc), bytesIn = 0, bytesOut = 0, startTime = te_now env,
     closed = False\<rparr>"

definition new_row :: "track_env \<Rightarrow> string \<Rightarrow> string \<Rightarrow> StatsCollector \<Rightarrow> ConnectionStats" where
  "new_row env clientIP targetAddr sc = \<lparr>ID = conn_seq (db sc) + 1, ClientIP = clientIP,
     TargetAddr = targetAddr, Country = fst (locate env sc), City = snd (locate env sc),
     BytesIn = 0, BytesOut = 0, ConnectedAt = te_now env, DisconnectedAt = None, Duration = None\<rparr>"

subsection \<open>Counting bytes\<close>

definition AddBytesIn :: "64 word \<Rightarrow> nat \<Rightarrow> StatsCollector \<Rightarrow> StatsCollector" where
  "AddBytesIn n ref sc =
     (case deref sc ref of
        None \<Rightarrow> sc
      | Some ct \<Rightarrow> sc\<lparr>trackers := (trackers sc)[ref := ct\<lparr>bytesIn := bytesIn ct + n\<rparr>]\<rparr>)"

definition AddBytesOut :: "64 word \<Rightarrow> nat \<Rightarrow> StatsCollector \<Rightarrow> StatsCollector" where
  "AddBytesOut n ref sc =
     (case deref sc ref of
        None \<Rightarrow> sc
      | Some ct \<Rightarrow> sc\<lparr>trackers := (trackers sc)[ref := ct\<lparr>bytesOut := bytesOut ct + n\<rparr>]\<rparr>)"

text \<open>
  \<^verbatim>\<open>trackedConn.Read\<close> and \<^verbatim>\<open>trackedConn.Write\<close>: \<open>n\<close> is the count the wrapped
  connection returned; \<^verbatim>\<open>int64(n)\<close> is added when it is positive.
\<close>

definition trackedConn_Read :: "int \<Rightarrow> nat \<Rightarrow> StatsCollector \<Rightarrow> StatsCollector" where
  "trackedConn_Read n ref sc = (if n > 0 then AddBytesIn (word_of_int n) ref sc else sc)"

definition trackedConn_Write :: "int \<Rightarrow> nat \<Rightarrow> StatsCollector \<Rightarrow> StatsCollector" where
  "trackedConn_Write n ref sc = (if n > 0 then AddBytesOut (word_of_int n) ref sc else sc)"

subsection \<open>Closing a tracker\<close>

text \<open>
  \<^verbatim>\<open>int64(d.Seconds())\<close> for a duration \<open>d\<close> in nanoseconds. Go adds the whole
  seconds and the fraction as \<^verbatim>\<open>float64\<close> and truncates the sum. Below \<open>2 ^ 24\<close>
  seconds the sum stays under the next whole second, and the result is the whole seconds.
  From \<open>2 ^ 24\<close> seconds on, a fraction close to a full second makes the sum round up to the
  next whole second; the model does not compute when, and takes from outside whether it
  happened (\<open>up\<close>).
\<close>

definition Seconds_int64 :: "bool \<Rightarrow> int \<Rightarrow> int" where
  "Seconds_int64 up d =
     (let whole = \<bar>d\<bar> div 1000000000;
          secs = (if up \<and> 16777216 \<le> whole then whole + 1 else whole)
      in if 0 \<le> d then secs else - secs)"

text \<open>
  \<^verbatim>\<open>UPDATE connections SET bytes_in = ?, bytes_out = ?, disconnected_at = ?, duration = ?
  WHERE id = ?\<close>
\<close>

definition update_connection ::
  "int \<Rightarrow> int \<Rightarrow> int \<Rightarrow> stamp \<Rightarrow> int \<Rightarrow> ConnectionStats \<Rightarrow> ConnectionStats" where
  "update_connection rid bi bo disc dur row =
     (if ID row = rid
      then row\<lparr>BytesIn := bi, BytesOut := bo, DisconnectedAt := Some disc, Duration := Some dur\<rparr>
      else row)"

text \<open>
  What \<^verbatim>\<open>Close\<close> receives from outside: the clock read by \<^verbatim>\<open>time.Since\<close>, whether
  the conversion of the duration rounded up, the time read by \<^verbatim>\<open>time.Now\<close>, whether the
  \<^verbatim>\<open>UPDATE\<close> executed, and the store's answers to the two aggregate statements.
\<close>

record close_env =
  ce_since :: time
  ce_rounds_up :: bool
  ce_now :: stamp
  ce_update_ok :: bool
  ce_server :: stmt
  ce_geo :: stmt

text \<open>
  \<^verbatim>\<open>ConnectionTracker.Close\<close>. The test of the flag and the step to \<open>sc0\<close> are the
  one atomic \<^verbatim>\<open>CompareAndSwap(false, true)\<close>. The \<^verbatim>\<open>uint64\<close> id and the
  \<^verbatim>\<open>int64\<close> counters are handed to the store as integers.
\<close>

definition Close :: "close_env \<Rightarrow> nat \<Rightarrow> StatsCollector \<Rightarrow> StatsCollector" where
  "Close env ref sc =
     (case deref sc ref of
        None \<Rightarrow> sc
      | Some ct \<Rightarrow>
          if closed ct then sc
          else
            let sc0 = sc\<lparr>trackers := (trackers sc)[ref := ct\<lparr>closed := True\<rparr>]\<rparr>;
                bytesIn' = bytesIn ct;
                bytesOut' = bytesOut ct;
                duration = Seconds_int64 (ce_rounds_up env)
                             (ce_since env - instant (startTime ct));
                totalBytes = bytesIn' + bytesOut';
                sc1 = (if ce_update_ok env
                       then sc0\<lparr>db := (db sc0)\<lparr>connections :=
                              map (update_connection (uint (tracker_id ct)) (sint bytesIn')
                                     (sint bytesOut') (ce_now env) duration)
                                (connections (db sc0))\<rparr>\<rparr>
                       else sc0);
                sc2 = sc1\<lparr>activeCount := activeCount sc1 + (- 1)\<rparr>;
                sc3 = updateServerStats (ce_server env) 0 (sint bytesIn') (sint bytesOut') sc2;
                sc4 = updateGeoStats (ce_geo env) (country ct) (sint totalBytes) False sc3
            in sc4\<lparr>activeConns := AList.delete (tracker_id ct) (activeConns sc4)\<rparr>)"


text \<open>
  \<^verbatim>\<open>StatsCollector.Close\<close>: \<^verbatim>\<open>Range\<close> over the active set, closing every tracker in
  it; \<open>envs\<close> gives what the call on each reference receives.
\<close>

fun close_all :: "(nat \<Rightarrow> close_env) \<Rightarrow> nat list \<Rightarrow> StatsCollector \<Rightarrow> StatsCollector" where
  "close_all envs [] sc = sc"
| "close_all envs (ref # refs) sc = close_all envs refs (Close (envs ref) ref sc)"

definition StatsCollector_Close :: "(nat \<Rightarrow> close_env) \<Rightarrow> StatsCollector \<Rightarrow> StatsCollector" where
  "StatsCollector_Close envs sc = close_all envs (map snd (activeConns sc)) sc"

subsection \<open>Retention sweep and construction\<close>

text \<open>
  What a sweep receives from outside: the time read by \<^verbatim>\<open>time.Now\<close>, the calendar
  arithmetic \<^verbatim>\<open>t.AddDate(years, months, days)\<close> of Go's \<^verbatim>\<open>time\<close> package in the zone
  of the process (a parameter, like the other library functions), and whether the
  \<^verbatim>\<open>DELETE\<close> executed.
\<close>

record sweep_env =
  sw_now :: stamp
  sw_AddDate :: "stamp \<Rightarrow> int \<Rightarrow> int \<Rightarrow> int \<Rightarrow> stamp"
  sw_delete_ok :: bool

text \<open>
  \<^verbatim>\<open>DELETE FROM connections WHERE connected_at < ?\<close> with the cutoff as parameter: the
  store compares the text of each \<^verbatim>\<open>connected_at\<close> with the text of the cutoff.
\<close>

definition cleanupExpiredConnections :: "sweep_env \<Rightarrow> StatsCollector \<Rightarrow> StatsCollector" where
  "cleanupExpiredConnections env sc =
     (let cutoff = sw_AddDate env (sw_now env) 0 0 (- retentionDays sc)
      in if sw_delete_ok env
         then sc\<lparr>db := (db sc)\<lparr>connections :=
                filter (\<lambda>row. \<not> text_before (ConnectedAt row) cutoff) (connections (db sc))\<rparr>\<rparr>
         else sc)"

text \<open>
  \<^verbatim>\<open>cleanupLoop\<close> never returns once retention is enabled; \<open>ticks\<close> holds what the
  sweeps at the ticks seen so far received, and the result is the collector after them.
\<close>

fun ticker_loop :: "sweep_env list \<Rightarrow> StatsCollector \<Rightarrow> StatsCollector" where
  "ticker_loop [] sc = sc"
| "ticker_loop (env # ticks) sc = ticker_loop ticks (cleanupExpiredConnections env sc)"

definition cleanupLoop :: "sweep_env \<Rightarrow> sweep_env list \<Rightarrow> StatsCollector \<Rightarrow> StatsCollector" where
  "cleanupLoop first ticks sc =
     (if retentionDays sc \<le> 0 then sc
      else ticker_loop ticks (cleanupExpiredConnections first sc))"

text \<open>
  \<^verbatim>\<open>NewStatsCollector\<close>, up to the point where it starts \<^verbatim>\<open>cleanupLoop\<close> in the
  background.
\<close>

definition NewStatsCollector :: "time \<Rightarrow> stmt \<Rightarrow> database \<Rightarrow> bool \<Rightarrow> int \<Rightarrow> StatsCollector" where
  "NewStatsCollector now r d geo retentionDays' =
     (let rd = (if retentionDays' < 0 then 0 else retentionDays');
          sc = \<lparr>db = d, has_geoip = geo, activeConns = [], serverStartTime = now,
                retentionDays = rd, activeCount = 0, totalConns = 0, trackers = []\<rparr>
      in initServerStats r sc)"

subsection \<open>The operations of the collector as steps\<close>

datatype op =
    OpTrack track_env string string
  | OpRead nat int
  | OpWrite nat int
  | OpClose close_env nat
  | OpCloseAll "nat \<Rightarrow> close_env"
  | OpInit stmt
  | OpCleanup sweep_env "sweep_env list"

fun step :: "op \<Rightarrow> StatsCollector \<Rightarrow> StatsCollector" where
  "step (OpTrack env clientIP targetAddr) sc = snd (TrackConnection env clientIP targetAddr sc)"
| "step (OpRead ref n) sc = trackedConn_Read n ref sc"
| "step (OpWrite ref n) sc = trackedConn_Write n ref sc"
| "step (OpClose env ref) sc = Close env ref sc"
| "step (OpCloseAll envs) sc = StatsCollector_Close envs sc"
| "step (OpInit r) sc = initServerStats r sc"
| "step (OpCleanup first ticks) sc = cleanupLoop first ticks sc"

fun run :: "op list \<Rightarrow> StatsCollector \<Rightarrow> StatsCollector" where
  "run [] sc = sc"
| "run (x # xs) sc = run xs (step x sc)"

text \<open>The reference names a tracker whose \<^verbatim>\<open>closed\<close> flag is set.\<close>

definition is_closed :: "StatsCollector \<Rightarrow> nat \<Rightarrow> bool" where
  "is_closed sc ref = (case deref sc ref of None \<Rightarrow> False | Some ct \<Rightarrow> closed ct)"

text \<open>No byte counter of a tracker has wrapped around to a negative \<^verbatim>\<open>int64\<close>.\<close>

definition counters_ok :: "StatsCollector \<Rightarrow> bool" where
  "counters_ok sc = list_all (\<lambda>ct. 0 \<le> sint (bytesIn ct) \<and> 0 \<le> sint (bytesOut ct)) (trackers sc)"




text \<open>
  The bytes that a run of operations reads and writes through the connection of one
  tracker: the positive counts of its reads and of its writes.
\<close>

fun op_in :: "nat \<Rightarrow> op \<Rightarrow> int" where
  "op_in ref (OpRead a n) = (if a = ref \<and> n > 0 then n else 0)"
| "op_in ref x = 0"

fun op_out :: "nat \<Rightarrow> op \<Rightarrow> int" where
  "op_out ref (OpWrite a n) = (if a = ref \<and> n > 0 then n else 0)"
| "op_out ref x = 0"

fun ops_in :: "nat \<Rightarrow> op list \<Rightarrow> int" where
  "ops_in ref [] = 0"
| "ops_in ref (x # xs) = op_in ref x + ops_in ref xs"

fun ops_out :: "nat \<Rightarrow> op list \<Rightarrow> int" where
  "ops_out ref [] = 0"
| "ops_out ref (x # xs) = op_out ref x + ops_out ref xs"

text \<open>The traffic of one connection: what each read and each write of the transport returned.\<close>

datatype io = Rd int | Wr int

fun stream :: "io list \<Rightarrow> nat \<Rightarrow> StatsCollector \<Rightarrow> StatsCollector" where
  "stream [] ref sc = sc"
| "stream (Rd n # evs) ref sc = stream evs ref (trackedConn_Read n ref sc)"
| "stream (Wr n # evs) ref sc = stream evs ref (trackedConn_Write n ref sc)"

fun total_in :: "io list \<Rightarrow> int" where
  "total_in [] = 0"
| "total_in (Rd n # evs) = (if n > 0 then n else 0) + total_in evs"
| "total_in (Wr n # evs) = total_in evs"

fun total_out :: "io list \<Rightarrow> int" where
  "total_out [] = 0"
| "total_out (Rd n # evs) = total_out evs"
| "total_out (Wr n # evs) = (if n > 0 then n else 0) + total_out evs"

section \<open>Egress authorization: the whitelist\<close>

text \<open>
  Go's \<^verbatim>\<open>net.IP\<close> is a byte slice, \<^verbatim>\<open>net.IPNet\<close> an address with a mask,
  \<^verbatim>\<open>net.IPAddr\<close> an address with a zone.
\<close>

type_synonym IP = "8 word list"

record IPNet =
  net_IP :: IP
  net_Mask :: "8 word list"

record IPAddr =
  addr_IP :: IP
  addr_Zone :: string

text \<open>
  The functions of Go's \<^verbatim>\<open>net\<close> and \<^verbatim>\<open>strings\<close> packages that the proxy calls
  are parameters of the model: name resolution answers from outside, and the others are
  library code. An error is the left summand, with its message.
\<close>

record netlib =
  SplitHostPort :: "string \<Rightarrow> string + string \<times> string"
  ResolveIPAddr :: "string \<Rightarrow> string \<Rightarrow> string + IPAddr"
  LookupHost :: "string \<Rightarrow> string + string list"
  ParseCIDR :: "string \<Rightarrow> string + IPNet"
  IPAddr_String :: "IPAddr \<Rightarrow> string"
  IP_String :: "IP \<Rightarrow> string"
  Contains :: "IPNet \<Rightarrow> IP \<Rightarrow> bool"
  EqualFold :: "string \<Rightarrow> string \<Rightarrow> bool"

text \<open>The globals of \<^verbatim>\<open>whitelist.go\<close>: the resolved-IP set and the range list.\<close>

record whitelist_state =
  whitelist :: "string set"
  ipRanges :: "IPNet list"

subsection \<open>Refresh\<close>

text \<open>The loop of \<^verbatim>\<open>checkHostIPs\<close> over the addresses \<^verbatim>\<open>LookupHost\<close> returned.\<close>

fun add_resolved :: "netlib \<Rightarrow> string list \<Rightarrow> whitelist_state \<Rightarrow> whitelist_state" where
  "add_resolved lib [] st = st"
| "add_resolved lib (ipStr # ips) st =
     (case ResolveIPAddr lib ''ip'' ipStr of
        Inl err \<Rightarrow> add_resolved lib ips st
      | Inr ip \<Rightarrow>
          add_resolved lib ips (st\<lparr>whitelist := insert (IPAddr_String lib ip) (whitelist st)\<rparr>))"

definition checkHostIPs :: "netlib \<Rightarrow> string \<Rightarrow> whitelist_state \<Rightarrow> whitelist_state" where
  "checkHostIPs lib host st =
     (if CHR ''/'' \<in> set host
      then (case ParseCIDR lib host of
              Inl err \<Rightarrow> st
            | Inr ipNet \<Rightarrow> st\<lparr>ipRanges := ipRanges st @ [ipNet]\<rparr>)
      else (case LookupHost lib host of
              Inl err \<Rightarrow> st
            | Inr ips \<Rightarrow> if length ips = 0 then st else add_resolved lib ips st))"

text \<open>
  \<^verbatim>\<open>checkIPs\<close> with the goroutines run one after the other, in the order of the
  configuration.
\<close>

fun check_hosts :: "netlib \<Rightarrow> string list \<Rightarrow> whitelist_state \<Rightarrow> whitelist_state" where
  "check_hosts lib [] st = st"
| "check_hosts lib (host # hosts) st = check_hosts lib hosts (checkHostIPs lib host st)"

definition checkIPs :: "netlib \<Rightarrow> string list \<Rightarrow> whitelist_state \<Rightarrow> whitelist_state" where
  "checkIPs lib cfg_wl st = check_hosts lib cfg_wl (st\<lparr>ipRanges := []\<rparr>)"

subsection \<open>Refresh, one critical section at a time\<close>

text \<open>
  Every write of a goroutine of \<^verbatim>\<open>checkHostIPs\<close> happens inside one lock/unlock pair;
  these are its atomic steps, in program order.
\<close>

datatype action = AppendRange IPNet | AddIP string

fun apply_action :: "action \<Rightarrow> whitelist_state \<Rightarrow> whitelist_state" where
  "apply_action (AppendRange ipNet) st = st\<lparr>ipRanges := ipRanges st @ [ipNet]\<rparr>"
| "apply_action (AddIP s) st = st\<lparr>whitelist := insert s (whitelist st)\<rparr>"

fun resolved_steps :: "netlib \<Rightarrow> string list \<Rightarrow> action list" where
  "resolved_steps lib [] = []"
| "resolved_steps lib (ipStr # ips) =
     (case ResolveIPAddr lib ''ip'' ipStr of
        Inl err \<Rightarrow> resolved_steps lib ips
      | Inr ip \<Rightarrow> AddIP (IPAddr_String lib ip) # resolved_steps lib ips)"

definition host_steps :: "netlib \<Rightarrow> string \<Rightarrow> action list" where
  "host_steps lib host =
     (if CHR ''/'' \<in> set host
      then (case ParseCIDR lib host of
              Inl err \<Rightarrow> []
            | Inr ipNet \<Rightarrow> [AppendRange ipNet])
      else (case LookupHost lib host of
              Inl err \<Rightarrow> []
            | Inr ips \<Rightarrow> if length ips = 0 then [] else resolved_steps lib ips))"

text \<open>
  A refresh in progress: what each goroutine still has to do, and the shared state.
  \<^verbatim>\<open>checkIPs\<close> empties the range list before it starts the goroutines.
\<close>

type_synonym refresh = "action list list \<times> whitelist_state"

definition refresh_start :: "netlib \<Rightarrow> string list \<Rightarrow> whitelist_state \<Rightarrow> refresh" where
  "refresh_start lib cfg_wl st = (map (host_steps lib) cfg_wl, st\<lparr>ipRanges := []\<rparr>)"

text \<open>Goroutine \<open>i\<close> performs its next step (nothing, when it has finished).\<close>

definition sched_step :: "nat \<Rightarrow> refresh \<Rightarrow> refresh" where
  "sched_step i r =
     (if i < length (fst r)
      then (case fst r ! i of
              [] \<Rightarrow> r
            | a # rest \<Rightarrow> ((fst r)[i := rest], apply_action a (snd r)))
      else r)"

text \<open>A schedule names the goroutine that moves next; every interleaving is a schedule.\<close>

fun run_schedule :: "nat list \<Rightarrow> refresh \<Rightarrow> refresh" where
  "run_schedule [] r = r"
| "run_schedule (i # sch) r = run_schedule sch (sched_step i r)"

definition finished :: "refresh \<Rightarrow> bool" where
  "finished r = list_all (\<lambda>steps. steps = []) (fst r)"

text \<open>What a list of steps, and a pool of goroutines, will still add.\<close>

fun ranges_of :: "action list \<Rightarrow> IPNet set" where
  "ranges_of [] = {}"
| "ranges_of (AppendRange ipNet # steps) = insert ipNet (ranges_of steps)"
| "ranges_of (AddIP s # steps) = ranges_of steps"

fun ips_of :: "action list \<Rightarrow> string set" where
  "ips_of [] = {}"
| "ips_of (AppendRange ipNet # steps) = ips_of steps"
| "ips_of (AddIP s # steps) = insert s (ips_of steps)"

fun pool_ranges :: "action list list \<Rightarrow> IPNet set" where
  "pool_ranges [] = {}"
| "pool_ranges (steps # pool) = ranges_of steps \<union> pool_ranges pool"

fun pool_ips :: "action list list \<Rightarrow> string set" where
  "pool_ips [] = {}"
| "pool_ips (steps # pool) = ips_of steps \<union> pool_ips pool"

subsection \<open>The whitelist check of the dialer\<close>

fun isIPInRange :: "netlib \<Rightarrow> IPNet list \<Rightarrow> IP \<Rightarrow> bool" where
  "isIPInRange lib [] ip = False"
| "isIPInRange lib (ipNet # rest) ip =
     (if Contains lib ipNet ip then True else isIPInRange lib rest ip)"

text \<open>The loop over \<^verbatim>\<open>cfg.Whitelist\<close> with its \<^verbatim>\<open>break\<close>.\<close>

fun host_listed :: "netlib \<Rightarrow> string \<Rightarrow> string list \<Rightarrow> bool" where
  "host_listed lib host [] = False"
| "host_listed lib host (whost # rest) =
     (if EqualFold lib host whost then True else host_listed lib host rest)"

definition whitelist_check ::
  "netlib \<Rightarrow> string list \<Rightarrow> whitelist_state \<Rightarrow> IPAddr \<Rightarrow> string \<Rightarrow> bool" where
  "whitelist_check lib cfg_wl st ip host =
     (let ok = (IPAddr_String lib ip \<in> whitelist st);
          ok = (if \<not> ok then isIPInRange lib (ipRanges st) (addr_IP ip) else ok);
          ok = (if \<not> ok then host_listed lib host cfg_wl else ok)
      in ok)"

section \<open>Egress authorization: the dialer\<close>

text \<open>
  The proxy as the \<^verbatim>\<open>Dialer\<close> callback of \<^verbatim>\<open>main.go\<close> sees it: the whitelist, the
  configured entries, the collector (\<open>None\<close> when statistics are off) and, for the
  network outside, the calls of \<^verbatim>\<open>DialContext\<close> made so far (network, target, local
  address).
\<close>

record proxy =
  wl :: whitelist_state
  cfg_Whitelist :: "string list"
  statsCollector :: "StatsCollector option"
  dialed :: "(string \<times> string \<times> IP option) list"

text \<open>
  What one call of the \<^verbatim>\<open>Dialer\<close> receives from outside: the library, \<^verbatim>\<open>runtime.GOOS\<close>,
  the address \<^verbatim>\<open>subnet.RandomIP\<close> drew, the error of \<^verbatim>\<open>RawConn.Control\<close> and of
  \<^verbatim>\<open>unix.SetsockoptInt\<close> (if any), the outcome of the connect that follows the control
  hook (an error or the new connection), the client address of the request, and what
  \<^verbatim>\<open>TrackConnection\<close> receives.
\<close>

record dial_env =
  de_lib :: netlib
  de_GOOS :: string
  de_RandomIP :: IP
  de_rawconn_err :: "string option"
  de_setsockopt_err :: "string option"
  de_connect :: "string + nat"
  de_ClientAddr :: string
  de_track :: track_env

text \<open>
  What the dialer returns: the connection of the transport as it is, or wrapped by the
  tracker with the given reference. For a wrapped connection the dialer also starts the
  goroutine that closes the tracker when the context of the request is done; that close is
  a later step on the collector.
\<close>

datatype conn = Plain nat | Tracked nat nat

text \<open>The \<^verbatim>\<open>Control\<close> hook of the \<^verbatim>\<open>net.Dialer\<close>: \<open>None\<close> is \<^verbatim>\<open>nil\<close>.\<close>

definition Control :: "dial_env \<Rightarrow> string option" where
  "Control env =
     (if de_GOOS env \<noteq> ''linux'' then None
      else (case de_rawconn_err env of
              Some err \<Rightarrow> Some err
            | None \<Rightarrow> de_setsockopt_err env))"

text \<open>
  \<^verbatim>\<open>net.Dialer.DialContext\<close>: the hook runs on the new socket before the connect, and an
  error of the hook fails the dial.
\<close>

definition DialContext :: "dial_env \<Rightarrow> string + nat" where
  "DialContext env =
     (case Control env of
        Some err \<Rightarrow> Inl err
      | None \<Rightarrow> de_connect env)"

definition clientIP_of :: "dial_env \<Rightarrow> string" where
  "clientIP_of env =
     (let clientIP = de_ClientAddr env;
          clientIP = (if clientIP \<noteq> ''''
                      then (case SplitHostPort (de_lib env) clientIP of
                              Inr (host, port) \<Rightarrow> host
                            | Inl err \<Rightarrow> clientIP)
                      else clientIP)
      in if clientIP = '''' then ''unknown'' else clientIP)"

definition Dialer :: "dial_env \<Rightarrow> string \<Rightarrow> string \<Rightarrow> proxy \<Rightarrow> (string + conn) \<times> proxy" where
  "Dialer env network addr p =
     (case SplitHostPort (de_lib env) addr of
        Inl err \<Rightarrow> (Inl (''failed to split host and port: '' @ err), p)
      | Inr (host, port) \<Rightarrow>
          (case ResolveIPAddr (de_lib env) ''ip4'' host of
             Inl err \<Rightarrow> (Inl (''failed to resolve IP: '' @ err), p)
           | Inr ip \<Rightarrow>
               if whitelist_check (de_lib env) (cfg_Whitelist p) (wl p) ip host
               then
                 let newAddr = de_RandomIP env;
                     (localAddr, network') =
                        (if network = ''tcp'' \<or> network = ''tcp4'' \<or> network = ''tcp6''
                         then (Some newAddr, ''tcp4'')
                         else if network = ''udp'' \<or> network = ''udp4'' \<or> network = ''udp6''
                         then (Some newAddr, ''udp4'')
                         else (None, network));
                     p1 = p\<lparr>dialed := dialed p @ [(network', addr, localAddr)]\<rparr>
                 in (case DialContext env of
                       Inl err \<Rightarrow> (Inl err, p1)
                     | Inr c \<Rightarrow>
                         (case statsCollector p1 of
                            None \<Rightarrow> (Inr (Plain c), p1)
                          | Some sc \<Rightarrow>
                              (case TrackConnection (de_track env) (clientIP_of env) addr sc of
                                 (None, sc') \<Rightarrow> (Inr (Plain c), p1\<lparr>statsCollector := Some sc'\<rparr>)
                               | (Some ref, sc') \<Rightarrow>
                                   (Inr (Tracked c ref), p1\<lparr>statsCollector := Some sc'\<rparr>))))
               else (Inl (''ip '' @ IP_String (de_lib env) (addr_IP ip) @ '' is not in the whitelist''),
                     p)))"

section \<open>A small run of the collector\<close>

text \<open>
  A store as the migrations leave it, a collector without GeoIP on top of it, one tracked
  connection, some traffic, and two closes of that connection.
\<close>

text \<open>A time of a process that runs in UTC.\<close>

definition utc :: "time \<Rightarrow> stamp" where
  "utc t = \<lparr>instant = t, zone_offset = 0\<rparr>"

text \<open>
  \<^verbatim>\<open>t.AddDate(0, 0, days)\<close> for a process that runs in UTC or in another zone without
  daylight saving, where every day has 24 hours: the offset stays. The sweep passes 0 for
  the years and the months; other values are not modelled.
\<close>

definition AddDate_utc :: "stamp \<Rightarrow> int \<Rightarrow> int \<Rightarrow> int \<Rightarrow> stamp" where
  "AddDate_utc t years months days = t\<lparr>instant := instant t + days * 86400000000000\<rparr>"

definition ok_at :: "time \<Rightarrow> stmt" where
  "ok_at t = \<lparr>stmt_ok = True, stmt_time = t\<rparr>"

definition failed_at :: "time \<Rightarrow> stmt" where
  "failed_at t = \<lparr>stmt_ok = False, stmt_time = t\<rparr>"

definition fresh_db :: database where
  "fresh_db = \<lparr>connections = [], conn_seq = 0,
     server_stats = Some \<lparr>StartTime = 0, TotalConnections = 0, TotalBytesIn = 0,
                           TotalBytesOut = 0, UpdatedAt = 0\<rparr>,
     geo_stats = []\<rparr>"

definition sc_new :: StatsCollector where
  "sc_new = NewStatsCollector 0 (ok_at 0) fresh_db False 90"

definition track_ok :: track_env where
  "track_ok = \<lparr>te_location = None, te_now = utc 1000000000, te_insert_ok = True,
     te_server = ok_at 1000000001, te_geo = ok_at 1000000002\<rparr>"

definition sc_tracked :: StatsCollector where
  "sc_tracked = snd (TrackConnection track_ok ''203.0.113.7'' ''example.com:443'' sc_new)"

definition traffic :: "io list" where
  "traffic = [Rd 1500, Wr 200, Rd 0, Rd 500, Wr 40]"

definition close_first :: close_env where
  "close_first = \<lparr>ce_since = 6500000000, ce_rounds_up = False, ce_now = utc 6500000100,
     ce_update_ok = True,
     ce_server = ok_at 6500000200, ce_geo = ok_at 6500000300\<rparr>"


section \<open>A library for dotted-quad IPv4\<close>

text \<open>
  One instance of the library parameters, enough for the scenarios: addresses and ranges
  in dotted-quad notation, ASCII case folding, and a resolver that knows the name
  \<^verbatim>\<open>example.com\<close> with the address 93.184.216.34.
\<close>

fun split_on :: "char \<Rightarrow> string \<Rightarrow> string list" where
  "split_on c [] = [[]]"
| "split_on c (x # xs) =
     (if x = c then [] # split_on c xs
      else (case split_on c xs of
              [] \<Rightarrow> [[x]]
            | w # ws \<Rightarrow> (x # w) # ws))"

definition digit_of :: "char \<Rightarrow> nat option" where
  "digit_of c =
     (let n = (of_char c :: nat) in if 48 \<le> n \<and> n \<le> 57 then Some (n - 48) else None)"

fun parse_dec_from :: "nat \<Rightarrow> string \<Rightarrow> nat option" where
  "parse_dec_from acc [] = Some acc"
| "parse_dec_from acc (c # cs) =
     (case digit_of c of
        None \<Rightarrow> None
      | Some d \<Rightarrow> parse_dec_from (10 * acc + d) cs)"

definition parse_dec :: "string \<Rightarrow> nat option" where
  "parse_dec s =
     (if s = [] \<or> length s > 3 \<or> (length s > 1 \<and> hd s = CHR ''0'') then None
      else parse_dec_from 0 s)"

definition parse_byte :: "string \<Rightarrow> 8 word option" where
  "parse_byte s =
     (case parse_dec s of
        None \<Rightarrow> None
      | Some n \<Rightarrow> if n < 256 then Some (of_nat n) else None)"

definition parse_ipv4 :: "string \<Rightarrow> IP option" where
  "parse_ipv4 s =
     (case map parse_byte (split_on CHR ''.'' s) of
        [Some a, Some b, Some c, Some d] \<Rightarrow> Some [a, b, c, d]
      | _ \<Rightarrow> None)"

text \<open>The mask of a prefix length, byte by byte.\<close>

definition mask_byte :: "nat \<Rightarrow> 8 word" where
  "mask_byte k = (if 8 \<le> k then 255 else of_nat (256 - 2 ^ (8 - k)))"

definition cidr_mask :: "nat \<Rightarrow> 8 word list" where
  "cidr_mask n = [mask_byte n, mask_byte (n - 8), mask_byte (n - 16), mask_byte (n - 24)]"

definition parse_cidr4 :: "string \<Rightarrow> string + IPNet" where
  "parse_cidr4 s =
     (case split_on CHR ''/'' s of
        [a, m] \<Rightarrow>
          (case (parse_ipv4 a, parse_dec m) of
             (Some ip, Some n) \<Rightarrow>
               if n \<le> 32
               then Inr \<lparr>net_IP = map2 (\<lambda>x y. x AND y) ip (cidr_mask n), net_Mask = cidr_mask n\<rparr>
               else Inl (''invalid CIDR address: '' @ s)
           | _ \<Rightarrow> Inl (''invalid CIDR address: '' @ s))
      | _ \<Rightarrow> Inl (''invalid CIDR address: '' @ s))"

definition dec_string :: "nat \<Rightarrow> string" where
  "dec_string n =
     (let d = (\<lambda>k. ''0123456789'' ! k)
      in if n < 10 then [d n]
         else if n < 100 then [d (n div 10), d (n mod 10)]
         else [d (n div 100), d (n div 10 mod 10), d (n mod 10)])"

definition ip4_string :: "IP \<Rightarrow> string" where
  "ip4_string ip =
     (case ip of
        [a, b, c, d] \<Rightarrow>
          dec_string (unat a) @ ''.'' @ dec_string (unat b) @ ''.'' @ dec_string (unat c)
            @ ''.'' @ dec_string (unat d)
      | _ \<Rightarrow> ''?'')"

definition ipaddr_string :: "IPAddr \<Rightarrow> string" where
  "ipaddr_string a =
     (if addr_Zone a = '''' then ip4_string (addr_IP a)
      else ip4_string (addr_IP a) @ ''%'' @ addr_Zone a)"

text \<open>Byte-wise comparison under the mask, as \<^verbatim>\<open>IPNet.Contains\<close> does for equal lengths.\<close>

definition contains4 :: "IPNet \<Rightarrow> IP \<Rightarrow> bool" where
  "contains4 n ip =
     (length ip = length (net_IP n)
      \<and> map2 (\<lambda>x m. x AND m) (net_IP n) (net_Mask n) = map2 (\<lambda>x m. x AND m) ip (net_Mask n))"

definition to_lower :: "char \<Rightarrow> char" where
  "to_lower c =
     (case map_of (zip ''ABCDEFGHIJKLMNOPQRSTUVWXYZ'' ''abcdefghijklmnopqrstuvwxyz'') c of
        Some l \<Rightarrow> l
      | None \<Rightarrow> c)"

definition equal_fold :: "string \<Rightarrow> string \<Rightarrow> bool" where
  "equal_fold s t = (map to_lower s = map to_lower t)"

text \<open>Splitting \<^verbatim>\<open>host:port\<close> at its only colon (no brackets).\<close>

definition split_host_port :: "string \<Rightarrow> string + string \<times> string" where
  "split_host_port s =
     (case split_on CHR '':'' s of
        [host, port] \<Rightarrow> Inr (host, port)
      | [x] \<Rightarrow> Inl (''address '' @ s @ '': missing port in address'')
      | _ \<Rightarrow> Inl (''address '' @ s @ '': too many colons in address''))"

definition lookup_host :: "string \<Rightarrow> string + string list" where
  "lookup_host host =
     (if parse_ipv4 host \<noteq> None then Inr [host]
      else if host = ''example.com'' then Inr [''93.184.216.34'']
      else Inl (''lookup '' @ host @ '': no such host''))"

definition resolve_ip_addr :: "string \<Rightarrow> string \<Rightarrow> string + IPAddr" where
  "resolve_ip_addr network host =
     (case lookup_host host of
        Inl err \<Rightarrow> Inl err
      | Inr ips \<Rightarrow>
          (case ips of
             [] \<Rightarrow> Inl (''lookup '' @ host @ '': no such host'')
           | a # rest \<Rightarrow>
               (case parse_ipv4 a of
                  None \<Rightarrow> Inl (''lookup '' @ host @ '': no such host'')
                | Some ip \<Rightarrow> Inr \<lparr>addr_IP = ip, addr_Zone = ''''\<rparr>)))"

definition ipv4_lib :: netlib where
  "ipv4_lib = \<lparr>SplitHostPort = split_host_port, ResolveIPAddr = resolve_ip_addr,
     LookupHost = lookup_host, ParseCIDR = parse_cidr4, IPAddr_String = ipaddr_string,
     IP_String = ip4_string, Contains = contains4, EqualFold = equal_fold\<rparr>"

text \<open>The scenario: two configured entries, an empty whitelist before the first refresh.\<close>

definition scenario_cfg :: "string list" where
  "scenario_cfg = [''10.0.0.0/8'', ''example.com'']"

definition wl_empty :: whitelist_state where
  "wl_empty = \<lparr>whitelist = {}, ipRanges = []\<rparr>"

definition scenario_wl :: whitelist_state where
  "scenario_wl = checkIPs ipv4_lib scenario_cfg wl_empty"

definition scenario_proxy :: proxy where
  "scenario_proxy = \<lparr>wl = scenario_wl, cfg_Whitelist = scenario_cfg,
     statsCollector = Some sc_new, dialed = []\<rparr>"

definition dial_ok :: dial_env where
  "dial_ok = \<lparr>de_lib = ipv4_lib, de_GOOS = ''linux'', de_RandomIP = [192, 0, 2, 77],
     de_rawconn_err = None, de_setsockopt_err = None, de_connect = Inr 5,
     de_ClientAddr = ''203.0.113.7:51000'', de_track = track_ok\<rparr>"

text \<open>The same call on Linux when the socket option cannot be set.\<close>

definition dial_no_freebind :: dial_env where
  "dial_no_freebind = dial_ok\<lparr>de_setsockopt_err := Some ''operation not permitted''\<rparr>"

text \<open>The same call on another platform.\<close>

definition dial_darwin :: dial_env where
  "dial_darwin = dial_no_freebind\<lparr>de_GOOS := ''darwin''\<rparr>"

text \<open>
  A second connection, tracked on day 100 of the process clock, and a sweep on day 120 with
  the retention of 90 days.
\<close>

definition track_later :: track_env where
  "track_later = \<lparr>te_location = None, te_now = utc 8640000000000000, te_insert_ok = True,
     te_server = ok_at 8640000000000001, te_geo = ok_at 8640000000000002\<rparr>"

definition sc_two :: StatsCollector where
  "sc_two = snd (TrackConnection track_later ''198.51.100.9'' ''example.com:80'' sc_tracked)"

definition sweep_ok :: sweep_env where
  "sweep_ok = \<lparr>sw_now = utc 10368000000000000, sw_AddDate = AddDate_utc,
     sw_delete_ok = True\<rparr>"

text \<open>A creation whose \<^verbatim>\<open>UPDATE server_stats\<close> the store fails.\<close>

definition track_stats_failed :: track_env where
  "track_stats_failed = track_ok\<lparr>te_server := failed_at 1000000001\<rparr>"

text \<open>A collector made with retention switched off, and one tracked connection in it.\<close>

definition sc_keep :: StatsCollector where
  "sc_keep = NewStatsCollector 0 (ok_at 0) fresh_db False (- 1)"

text \<open>
  Two configured ranges, the whitelist an earlier refresh has built from them, and the next
  refresh at the moment when only the second goroutine has appended its range.
\<close>

definition two_ranges :: "string list" where
  "two_ranges = [''10.0.0.0/8'', ''192.168.0.0/16'']"

definition wl_two :: whitelist_state where
  "wl_two = checkIPs ipv4_lib two_ranges wl_empty"

definition wl_mid :: whitelist_state where
  "wl_mid = snd (run_schedule [1] (refresh_start ipv4_lib two_ranges wl_two))"

text \<open>The same call on Linux when \<^verbatim>\<open>RawConn.Control\<close> itself fails.\<close>

definition dial_rawconn_failed :: dial_env where
  "dial_rawconn_failed = dial_ok\<lparr>de_rawconn_err := Some ''use of closed network connection''\<rparr>"

text \<open>A sweep whose \<^verbatim>\<open>DELETE\<close> the store fails.\<close>

definition sweep_failed :: sweep_env where
  "sweep_failed = sweep_ok\<lparr>sw_delete_ok := False\<rparr>"

section \<open>A run of the collector with GeoIP\<close>






definition close_late :: close_env where
  "close_late = \<lparr>ce_since = 10368000500000000, ce_rounds_up = False,
     ce_now = utc 10368000500000100, ce_update_ok = True,
     ce_server = ok_at 10368000500000200, ce_geo = ok_at 10368000500000300\<rparr>"

section \<open>A sweep after a change of zone\<close>

text \<open>
  A connection tracked by a process in UTC at 10:30 of the first day, and the sweep of a
  process two hours east of UTC (a zone without daylight saving) 90 days after 10:00 UTC
  of the first day: its cutoff is 10:00 UTC of the first day, written as 12:00 with the
  offset.
\<close>

definition written_in_utc :: stamp where
  "written_in_utc = \<lparr>instant = 37800000000000, zone_offset = 0\<rparr>"

definition cutoff_east :: stamp where
  "cutoff_east = \<lparr>instant = 36000000000000, zone_offset = 7200\<rparr>"

definition track_utc :: track_env where
  "track_utc = \<lparr>te_location = None, te_now = written_in_utc, te_insert_ok = True,
     te_server = ok_at 37800000000001, te_geo = ok_at 37800000000002\<rparr>"

definition sc_utc :: StatsCollector where
  "sc_utc = snd (TrackConnection track_utc ''203.0.113.7'' ''example.com:443'' sc_new)"

definition sweep_east :: sweep_env where
  "sweep_east = \<lparr>sw_now = \<lparr>instant = 7812000000000000, zone_offset = 7200\<rparr>,
     sw_AddDate = AddDate_utc, sw_delete_ok = True\<rparr>"

section \<open>A run with a second connection\<close>

text \<open>
  The traffic of the small run as operations of the collector, with a second connection
  that is tracked and written to in between; and a close after the sweep of day 120 whose
  \<^verbatim>\<open>UPDATE\<close> the store fails.
\<close>

definition traffic_ops :: "op list" where
  "traffic_ops = [OpRead 0 1500, OpWrite 0 200,
     OpTrack track_later ''198.51.100.9'' ''example.com:80'',
     OpRead 0 0, OpWrite 1 77, OpRead 0 500, OpWrite 0 40]"

definition close_late_failed :: close_env where
  "close_late_failed = close_late\<lparr>ce_update_ok := False\<rparr>"

section \<open>Properties of the traffic accounting\<close>

subsection \<open>What the aggregate updates leave alone\<close>

lemma deref_updateServerStats [simp]: "deref (updateServerStats r a b c sc) ref = deref sc ref"
  by (simp add: updateServerStats_def deref_def)

lemma deref_updateGeoStats [simp]: "deref (updateGeoStats r a b c sc) ref = deref sc ref"
  by (simp add: updateGeoStats_def deref_def Let_def)

lemma trackers_updateServerStats [simp]: "trackers (updateServerStats r a b c sc) = trackers sc"
  by (simp add: updateServerStats_def)

lemma trackers_updateGeoStats [simp]: "trackers (updateGeoStats r a b c sc) = trackers sc"
  by (simp add: updateGeoStats_def Let_def)

lemma Close_closed: "deref sc ref = Some ct \<Longrightarrow> closed ct \<Longrightarrow> Close env ref sc = sc"
  by (simp add: Close_def)

lemma Close_dangling: "deref sc ref = None \<Longrightarrow> Close env ref sc = sc"
  by (simp add: Close_def)




lemma activeCount_updateServerStats [simp]: "activeCount (updateServerStats r a b c sc) = activeCount sc"
  by (simp add: updateServerStats_def)
lemma activeCount_updateGeoStats [simp]: "activeCount (updateGeoStats r a b c sc) = activeCount sc"
  by (simp add: updateGeoStats_def Let_def)
lemma activeConns_updateServerStats [simp]: "activeConns (updateServerStats r a b c sc) = activeConns sc"
  by (simp add: updateServerStats_def)
lemma activeConns_updateGeoStats [simp]: "activeConns (updateGeoStats r a b c sc) = activeConns sc"
  by (simp add: updateGeoStats_def Let_def)

lemma connections_updateServerStats [simp]: "connections (db (updateServerStats r a b c sc)) = connections (db sc)"
  by (simp add: updateServerStats_def)
lemma connections_updateGeoStats [simp]: "connections (db (updateGeoStats r a b c sc)) = connections (db sc)"
  by (simp add: updateGeoStats_def Let_def)
lemma geo_updateServerStats [simp]: "geo_stats (db (updateServerStats r a b c sc)) = geo_stats (db sc)"
  by (simp add: updateServerStats_def)
lemma server_updateGeoStats [simp]: "server_stats (db (updateGeoStats r a b c sc)) = server_stats (db sc)"
  by (simp add: updateGeoStats_def Let_def)

lemma has_geoip_updateServerStats [simp]: "has_geoip (updateServerStats r a b c sc) = has_geoip sc"
  by (simp add: updateServerStats_def)
lemma has_geoip_updateGeoStats [simp]: "has_geoip (updateGeoStats r a b c sc) = has_geoip sc"
  by (simp add: updateGeoStats_def Let_def)


lemma Close_open_connections:
  "deref sc ref = Some ct \<Longrightarrow> \<not> closed ct \<Longrightarrow>
   connections (db (Close env ref sc)) =
     (if ce_update_ok env
      then map (update_connection (uint (tracker_id ct)) (sint (bytesIn ct)) (sint (bytesOut ct))
                  (ce_now env)
                  (Seconds_int64 (ce_rounds_up env) (ce_since env - instant (startTime ct))))
             (connections (db sc))
      else connections (db sc))"
  by (simp add: Close_def Let_def)

lemma Close_open_server:
  "deref sc ref = Some ct \<Longrightarrow> \<not> closed ct \<Longrightarrow>
   server_stats (db (Close env ref sc)) =
     server_stats (db (updateServerStats (ce_server env) 0 (sint (bytesIn ct)) (sint (bytesOut ct)) sc))"
  by (simp add: Close_def Let_def updateServerStats_def)

lemma Close_open_geo:
  "deref sc ref = Some ct \<Longrightarrow> \<not> closed ct \<Longrightarrow>
   geo_stats (db (Close env ref sc)) =
     geo_stats (db (updateGeoStats (ce_geo env) (country ct) (sint (bytesIn ct + bytesOut ct)) False sc))"
  by (simp add: Close_def Let_def updateGeoStats_def)


lemma sc_tracked_eval:
  "sc_tracked = \<lparr>db = \<lparr>connections = [\<lparr>ID = 1, ClientIP = ''203.0.113.7'',
        TargetAddr = ''example.com:443'', Country = ''Unknown'', City = '''', BytesIn = 0,
        BytesOut = 0, ConnectedAt = utc 1000000000, DisconnectedAt = None, Duration = None\<rparr>],
      conn_seq = 1,
      server_stats = Some \<lparr>StartTime = 0, TotalConnections = 1, TotalBytesIn = 0,
        TotalBytesOut = 0, UpdatedAt = 1000000001\<rparr>,
      geo_stats = []\<rparr>,
    has_geoip = False, activeConns = [(1, 0)], serverStartTime = 0, retentionDays = 90,
    activeCount = 1, totalConns = 1,
    trackers = [\<lparr>tracker_id = 1, country = ''Unknown'', bytesIn = 0, bytesOut = 0,
      startTime = utc 1000000000, closed = False\<rparr>]\<rparr>"
  by (simp add: sc_tracked_def sc_new_def TrackConnection_def NewStatsCollector_def
      initServerStats_def fresh_db_def track_ok_def ok_at_def locate_def Let_def
      updateServerStats_def updateGeoStats_def)

section \<open>Properties of the egress authorization\<close>

subsection \<open>The two loops of the check\<close>

lemma isIPInRange_iff: "isIPInRange lib ranges ip \<longleftrightarrow> (\<exists>n \<in> set ranges. Contains lib n ip)"
  by (induction ranges) auto

lemma host_listed_iff: "host_listed lib host ws \<longleftrightarrow> (\<exists>w \<in> set ws. EqualFold lib host w)"
  by (induction ws) auto

subsection \<open>Evaluating the scenario\<close>

lemmas ipv4_eval =
  ipv4_lib_def parse_cidr4_def parse_ipv4_def parse_byte_def parse_dec_def digit_of_def
  cidr_mask_def mask_byte_def lookup_host_def resolve_ip_addr_def ipaddr_string_def
  ip4_string_def dec_string_def contains4_def equal_fold_def to_lower_def split_host_port_def

lemma scenario_wl_eval:
  "scenario_wl = \<lparr>whitelist = {''93.184.216.34''},
     ipRanges = [\<lparr>net_IP = [10, 0, 0, 0], net_Mask = [255, 0, 0, 0]\<rparr>]\<rparr>"
  by (simp add: scenario_wl_def checkIPs_def scenario_cfg_def wl_empty_def checkHostIPs_def
      ipv4_eval)

lemma sc_new_eval:
  "sc_new = \<lparr>db = fresh_db, has_geoip = False, activeConns = [], serverStartTime = 0,
     retentionDays = 90, activeCount = 0, totalConns = 0, trackers = []\<rparr>"
  by (simp add: sc_new_def NewStatsCollector_def initServerStats_def fresh_db_def)

text \<open>
  Claim C3. The check of the dialer answers true exactly when the resolved address is in
  the resolved-IP set, or some range of the range list contains it, or the host equals
  some configured entry under case folding. In the scenario (entries \<^verbatim>\<open>10.0.0.0/8\<close> and
  \<^verbatim>\<open>example.com\<close>, the name resolving to 93.184.216.34, one refresh done) the dials to
  \<^verbatim>\<open>10.1.2.3:443\<close> and \<^verbatim>\<open>93.184.216.34:80\<close> go through and return a connection, and
  the dial to \<^verbatim>\<open>8.8.8.8:53\<close> is refused with an error and leaves the proxy as it was.
\<close>

theorem whitelist_check_iff:
  "(whitelist_check lib cfg_wl st ip host \<longleftrightarrow>
      IPAddr_String lib ip \<in> whitelist st
      \<or> (\<exists>n \<in> set (ipRanges st). Contains lib n (addr_IP ip))
      \<or> (\<exists>w \<in> set cfg_wl. EqualFold lib host w))
   \<and> fst (Dialer dial_ok ''tcp'' ''10.1.2.3:443'' scenario_proxy) = Inr (Tracked 5 0)
   \<and> fst (Dialer dial_ok ''tcp'' ''93.184.216.34:80'' scenario_proxy) = Inr (Tracked 5 0)
   \<and> Dialer dial_ok ''udp'' ''8.8.8.8:53'' scenario_proxy =
       (Inl ''ip 8.8.8.8 is not in the whitelist'', scenario_proxy)"
proof -
  have general: "whitelist_check lib cfg_wl st ip host \<longleftrightarrow>
      IPAddr_String lib ip \<in> whitelist st
      \<or> (\<exists>n \<in> set (ipRanges st). Contains lib n (addr_IP ip))
      \<or> (\<exists>w \<in> set cfg_wl. EqualFold lib host w)"
    by (simp add: whitelist_check_def Let_def isIPInRange_iff host_listed_iff)
  have a: "fst (Dialer dial_ok ''tcp'' ''10.1.2.3:443'' scenario_proxy) = Inr (Tracked 5 0)"
    by (simp add: Dialer_def dial_ok_def scenario_proxy_def scenario_wl_eval scenario_cfg_def
        whitelist_check_def DialContext_def Control_def sc_new_eval TrackConnection_def
        track_ok_def Let_def locate_def clientIP_of_def ipv4_eval)
  have b: "fst (Dialer dial_ok ''tcp'' ''93.184.216.34:80'' scenario_proxy) = Inr (Tracked 5 0)"
    by (simp add: Dialer_def dial_ok_def scenario_proxy_def scenario_wl_eval scenario_cfg_def
        whitelist_check_def DialContext_def Control_def sc_new_eval TrackConnection_def
        track_ok_def Let_def locate_def clientIP_of_def ipv4_eval)
  have c: "Dialer dial_ok ''udp'' ''8.8.8.8:53'' scenario_proxy =
       (Inl ''ip 8.8.8.8 is not in the whitelist'', scenario_proxy)"
    by (simp add: Dialer_def dial_ok_def scenario_proxy_def scenario_wl_eval scenario_cfg_def
        whitelist_check_def Let_def ipv4_eval)
  from general a b c show ?thesis by blast
qed


text \<open>
  The third branch alone: before any refresh, a host spelled \<^verbatim>\<open>Example.COM\<close> passes the
  check through the configured entry, and \<^verbatim>\<open>8.8.8.8\<close> does not.
\<close>

theorem whitelist_check_iff_witness:
  "whitelist_check ipv4_lib scenario_cfg wl_empty \<lparr>addr_IP = [8, 8, 8, 8], addr_Zone = ''''\<rparr>
     ''Example.COM''
   \<and> \<not> whitelist_check ipv4_lib scenario_cfg wl_empty
         \<lparr>addr_IP = [8, 8, 8, 8], addr_Zone = ''''\<rparr> ''8.8.8.8''"
  using whitelist_check_iff [THEN conjunct1, of ipv4_lib scenario_cfg wl_empty
      "\<lparr>addr_IP = [8, 8, 8, 8], addr_Zone = ''''\<rparr>" "''Example.COM''"]
    whitelist_check_iff [THEN conjunct1, of ipv4_lib scenario_cfg wl_empty
      "\<lparr>addr_IP = [8, 8, 8, 8], addr_Zone = ''''\<rparr>" "''8.8.8.8''"]
  by (simp add: scenario_cfg_def wl_empty_def ipv4_eval)

text \<open>
  Claim C4. When the target cannot be split or its host cannot be resolved to an IPv4
  address, the dialer returns an error and the proxy is unchanged; when the resolved
  address fails the whitelist check, the error names that address and the proxy is
  unchanged: no record, no counter and no entry in the log of dial attempts.
\<close>

theorem Dialer_fail_closed:
  "(SplitHostPort (de_lib env) addr = Inl err \<longrightarrow>
      Dialer env network addr p = (Inl (''failed to split host and port: '' @ err), p))
   \<and> (SplitHostPort (de_lib env) addr = Inr (host, port) \<longrightarrow>
      ResolveIPAddr (de_lib env) ''ip4'' host = Inl err \<longrightarrow>
      Dialer env network addr p = (Inl (''failed to resolve IP: '' @ err), p))
   \<and> (SplitHostPort (de_lib env) addr = Inr (host, port) \<longrightarrow>
      ResolveIPAddr (de_lib env) ''ip4'' host = Inr ip \<longrightarrow>
      \<not> whitelist_check (de_lib env) (cfg_Whitelist p) (wl p) ip host \<longrightarrow>
      Dialer env network addr p =
        (Inl (''ip '' @ IP_String (de_lib env) (addr_IP ip) @ '' is not in the whitelist''), p))"
  by (simp add: Dialer_def)

text \<open>An unresolvable name and an address outside the whitelist, in the scenario.\<close>

theorem Dialer_fail_closed_witness:
  "Dialer dial_ok ''tcp'' ''10.1.2.3'' scenario_proxy =
     (Inl ''failed to split host and port: address 10.1.2.3: missing port in address'',
      scenario_proxy)
   \<and> Dialer dial_ok ''tcp'' ''nowhere.invalid:80'' scenario_proxy =
     (Inl ''failed to resolve IP: lookup nowhere.invalid: no such host'', scenario_proxy)
   \<and> Dialer dial_ok ''tcp'' ''8.8.8.8:53'' scenario_proxy =
     (Inl ''ip 8.8.8.8 is not in the whitelist'', scenario_proxy)"
proof -
  have s0: "SplitHostPort (de_lib dial_ok) ''10.1.2.3''
      = Inl ''address 10.1.2.3: missing port in address''"
    by (simp add: dial_ok_def ipv4_eval)
  have s1: "SplitHostPort (de_lib dial_ok) ''nowhere.invalid:80'' = Inr (''nowhere.invalid'', ''80'')"
    by (simp add: dial_ok_def ipv4_eval)
  have r1: "ResolveIPAddr (de_lib dial_ok) ''ip4'' ''nowhere.invalid''
      = Inl ''lookup nowhere.invalid: no such host''"
    by (simp add: dial_ok_def ipv4_eval)
  have s2: "SplitHostPort (de_lib dial_ok) ''8.8.8.8:53'' = Inr (''8.8.8.8'', ''53'')"
    by (simp add: dial_ok_def ipv4_eval)
  have r2: "ResolveIPAddr (de_lib dial_ok) ''ip4'' ''8.8.8.8''
      = Inr \<lparr>addr_IP = [8, 8, 8, 8], addr_Zone = ''''\<rparr>"
    by (simp add: dial_ok_def ipv4_eval)
  have w2: "\<not> whitelist_check (de_lib dial_ok) (cfg_Whitelist scenario_proxy) (wl scenario_proxy)
      \<lparr>addr_IP = [8, 8, 8, 8], addr_Zone = ''''\<rparr> ''8.8.8.8''"
    by (simp add: dial_ok_def scenario_proxy_def scenario_wl_eval scenario_cfg_def
        whitelist_check_def ipv4_eval)
  have i2: "IP_String (de_lib dial_ok) [8, 8, 8, 8] = ''8.8.8.8''"
    by (simp add: dial_ok_def ipv4_eval)
  have z: "Dialer dial_ok ''tcp'' ''10.1.2.3'' scenario_proxy =
     (Inl ''failed to split host and port: address 10.1.2.3: missing port in address'',
      scenario_proxy)"
    using Dialer_fail_closed [THEN conjunct1, rule_format, OF s0] by simp
  have a: "Dialer dial_ok ''tcp'' ''nowhere.invalid:80'' scenario_proxy =
     (Inl ''failed to resolve IP: lookup nowhere.invalid: no such host'', scenario_proxy)"
    using Dialer_fail_closed [THEN conjunct2, THEN conjunct1, rule_format, OF s1 r1] by simp
  have b: "Dialer dial_ok ''tcp'' ''8.8.8.8:53'' scenario_proxy =
     (Inl ''ip 8.8.8.8 is not in the whitelist'', scenario_proxy)"
    using Dialer_fail_closed [THEN conjunct2, THEN conjunct2, rule_format, OF s2 r2 w2] i2
    by simp
  from z a b show ?thesis by blast
qed

lemma Dialer_authorized:
  assumes "SplitHostPort (de_lib env) addr = Inr (host, port)"
    and "ResolveIPAddr (de_lib env) ''ip4'' host = Inr ip"
    and "whitelist_check (de_lib env) (cfg_Whitelist p) (wl p) ip host"
  shows "Dialer env network addr p =
     (let (localAddr, network') =
            (if network = ''tcp'' \<or> network = ''tcp4'' \<or> network = ''tcp6''
             then (Some (de_RandomIP env), ''tcp4'')
             else if network = ''udp'' \<or> network = ''udp4'' \<or> network = ''udp6''
             then (Some (de_RandomIP env), ''udp4'')
             else (None, network));
          p1 = p\<lparr>dialed := dialed p @ [(network', addr, localAddr)]\<rparr>
      in (case DialContext env of
            Inl err \<Rightarrow> (Inl err, p1)
          | Inr c \<Rightarrow>
              (case statsCollector p1 of
                 None \<Rightarrow> (Inr (Plain c), p1)
               | Some sc \<Rightarrow>
                   (case TrackConnection (de_track env) (clientIP_of env) addr sc of
                      (None, sc') \<Rightarrow> (Inr (Plain c), p1\<lparr>statsCollector := Some sc'\<rparr>)
                    | (Some ref, sc') \<Rightarrow>
                        (Inr (Tracked c ref), p1\<lparr>statsCollector := Some sc'\<rparr>)))))"
  using assms by (simp add: Dialer_def Let_def)

text \<open>
  Claim C7, as stated, fails: on Linux an authorized dial whose socket option cannot be set
  returns the error of \<^verbatim>\<open>setsockopt\<close>, although the connect would have succeeded.
\<close>

theorem freebind_counterexample:
  "whitelist_check (de_lib dial_no_freebind) (cfg_Whitelist scenario_proxy) (wl scenario_proxy)
      \<lparr>addr_IP = [10, 1, 2, 3], addr_Zone = ''''\<rparr> ''10.1.2.3''
   \<and> de_connect dial_no_freebind = Inr 5
   \<and> Dialer dial_no_freebind ''tcp'' ''10.1.2.3:443'' scenario_proxy =
       (Inl ''operation not permitted'',
        scenario_proxy\<lparr>dialed := [(''tcp4'', ''10.1.2.3:443'', Some [192, 0, 2, 77])]\<rparr>)"
  by (simp add: Dialer_def dial_no_freebind_def dial_ok_def scenario_proxy_def scenario_wl_eval
      scenario_cfg_def whitelist_check_def DialContext_def Control_def Let_def ipv4_eval)

text \<open>
  Claim C7, amended. On a platform other than Linux the control hook returns nil without
  touching the socket, and the dial goes on to the connect. On Linux the hook sets the
  option: it returns the error of \<^verbatim>\<open>RawConn.Control\<close> or else that of
  \<^verbatim>\<open>setsockopt\<close>, such an error fails the dial, and the dial goes on to the connect
  only when there is none. An authorized call of the dialer returns the error of a failed
  dial and tracks nothing, and returns the connection of a successful one.
\<close>

theorem freebind_by_platform:
  "(de_GOOS env \<noteq> ''linux'' \<longrightarrow> Control env = None \<and> DialContext env = de_connect env)
   \<and> (de_GOOS env = ''linux'' \<longrightarrow>
        Control env = (case de_rawconn_err env of
                         Some err \<Rightarrow> Some err
                       | None \<Rightarrow> de_setsockopt_err env)
        \<and> DialContext env = (case de_rawconn_err env of
                               Some err \<Rightarrow> Inl err
                             | None \<Rightarrow>
                                 (case de_setsockopt_err env of
                                    Some err \<Rightarrow> Inl err
                                  | None \<Rightarrow> de_connect env)))
   \<and> (SplitHostPort (de_lib env) addr = Inr (host, port) \<longrightarrow>
        ResolveIPAddr (de_lib env) ''ip4'' host = Inr ip \<longrightarrow>
        whitelist_check (de_lib env) (cfg_Whitelist p) (wl p) ip host \<longrightarrow>
        DialContext env = Inl err \<longrightarrow>
        fst (Dialer env network addr p) = Inl err
        \<and> statsCollector (snd (Dialer env network addr p)) = statsCollector p)
   \<and> (SplitHostPort (de_lib env) addr = Inr (host, port) \<longrightarrow>
        ResolveIPAddr (de_lib env) ''ip4'' host = Inr ip \<longrightarrow>
        whitelist_check (de_lib env) (cfg_Whitelist p) (wl p) ip host \<longrightarrow>
        DialContext env = Inr c \<longrightarrow>
        fst (Dialer env network addr p) = Inr (Plain c)
        \<or> (\<exists>ref. fst (Dialer env network addr p) = Inr (Tracked c ref)))"
proof -
  have 1: "de_GOOS env \<noteq> ''linux'' \<longrightarrow> Control env = None \<and> DialContext env = de_connect env"
    by (simp add: Control_def DialContext_def)
  have 2: "de_GOOS env = ''linux'' \<longrightarrow>
        Control env = (case de_rawconn_err env of
                         Some err \<Rightarrow> Some err
                       | None \<Rightarrow> de_setsockopt_err env)
        \<and> DialContext env = (case de_rawconn_err env of
                               Some err \<Rightarrow> Inl err
                             | None \<Rightarrow>
                                 (case de_setsockopt_err env of
                                    Some err \<Rightarrow> Inl err
                                  | None \<Rightarrow> de_connect env))"
    by (simp add: Control_def DialContext_def split: option.splits)
  have 3: "SplitHostPort (de_lib env) addr = Inr (host, port) \<longrightarrow>
        ResolveIPAddr (de_lib env) ''ip4'' host = Inr ip \<longrightarrow>
        whitelist_check (de_lib env) (cfg_Whitelist p) (wl p) ip host \<longrightarrow>
        DialContext env = Inl err \<longrightarrow>
        fst (Dialer env network addr p) = Inl err
        \<and> statsCollector (snd (Dialer env network addr p)) = statsCollector p"
    by (simp add: Dialer_authorized Let_def)
  have 4: "SplitHostPort (de_lib env) addr = Inr (host, port) \<longrightarrow>
        ResolveIPAddr (de_lib env) ''ip4'' host = Inr ip \<longrightarrow>
        whitelist_check (de_lib env) (cfg_Whitelist p) (wl p) ip host \<longrightarrow>
        DialContext env = Inr c \<longrightarrow>
        fst (Dialer env network addr p) = Inr (Plain c)
        \<or> (\<exists>ref. fst (Dialer env network addr p) = Inr (Tracked c ref))"
    by (auto simp add: Dialer_authorized Let_def split: option.splits prod.splits)
  from 1 2 3 4 show ?thesis by blast
qed

text \<open>
  The authorized dial of the scenario on another platform, where the option is skipped and
  a tracked connection comes back, and on Linux with the option refused.
\<close>

theorem freebind_by_platform_witness:
  "DialContext dial_darwin = Inr 5
   \<and> fst (Dialer dial_darwin ''tcp'' ''10.1.2.3:443'' scenario_proxy) = Inr (Tracked 5 0)
   \<and> DialContext dial_ok = Inr 5
   \<and> DialContext dial_no_freebind = Inl ''operation not permitted''
   \<and> DialContext dial_rawconn_failed = Inl ''use of closed network connection''
   \<and> fst (Dialer dial_no_freebind ''tcp'' ''10.1.2.3:443'' scenario_proxy)
       = Inl ''operation not permitted''"
proof -
  note th = freebind_by_platform
  have g: "de_GOOS dial_darwin \<noteq> ''linux''"
    by (simp add: dial_darwin_def)
  have l: "de_GOOS dial_ok = ''linux''" "de_GOOS dial_no_freebind = ''linux''"
    "de_GOOS dial_rawconn_failed = ''linux''"
    by (simp_all add: dial_no_freebind_def dial_rawconn_failed_def dial_ok_def)
  have 1: "DialContext dial_darwin = Inr 5"
    using th [THEN conjunct1, rule_format, OF g]
    by (simp add: dial_darwin_def dial_no_freebind_def dial_ok_def)
  have 2: "DialContext dial_ok = Inr 5"
    using th [THEN conjunct2, THEN conjunct1, rule_format, OF l(1)] by (simp add: dial_ok_def)
  have 3: "DialContext dial_no_freebind = Inl ''operation not permitted''"
    using th [THEN conjunct2, THEN conjunct1, rule_format, OF l(2)]
    by (simp add: dial_no_freebind_def dial_ok_def)
  have 4: "DialContext dial_rawconn_failed = Inl ''use of closed network connection''"
    using th [THEN conjunct2, THEN conjunct1, rule_format, OF l(3)]
    by (simp add: dial_rawconn_failed_def dial_ok_def)
  have s: "SplitHostPort (de_lib env) ''10.1.2.3:443'' = Inr (''10.1.2.3'', ''443'')"
    "ResolveIPAddr (de_lib env) ''ip4'' ''10.1.2.3''
       = Inr \<lparr>addr_IP = [10, 1, 2, 3], addr_Zone = ''''\<rparr>"
    "whitelist_check (de_lib env) (cfg_Whitelist scenario_proxy) (wl scenario_proxy)
       \<lparr>addr_IP = [10, 1, 2, 3], addr_Zone = ''''\<rparr> ''10.1.2.3''"
    if "de_lib env = ipv4_lib" for env
    using that
    by (simp_all add: scenario_proxy_def scenario_wl_eval scenario_cfg_def whitelist_check_def
        ipv4_eval)
  have lib: "de_lib dial_no_freebind = ipv4_lib" "de_lib dial_darwin = ipv4_lib"
    by (simp_all add: dial_darwin_def dial_no_freebind_def dial_ok_def)
  have 5: "fst (Dialer dial_no_freebind ''tcp'' ''10.1.2.3:443'' scenario_proxy)
       = Inl ''operation not permitted''"
    using th [THEN conjunct2, THEN conjunct2, THEN conjunct1, rule_format,
        OF s [OF lib(1)] 3, of "''tcp''"] by simp
  have "fst (Dialer dial_darwin ''tcp'' ''10.1.2.3:443'' scenario_proxy) = Inr (Plain 5)
        \<or> (\<exists>ref. fst (Dialer dial_darwin ''tcp'' ''10.1.2.3:443'' scenario_proxy)
              = Inr (Tracked 5 ref))"
    using th [THEN conjunct2, THEN conjunct2, THEN conjunct2, rule_format,
        OF s [OF lib(2)] 1, of "''tcp''"] .
  moreover have "fst (Dialer dial_darwin ''tcp'' ''10.1.2.3:443'' scenario_proxy)
      = Inr (Tracked 5 0)"
    by (simp add: Dialer_def dial_darwin_def dial_no_freebind_def dial_ok_def scenario_proxy_def
        scenario_wl_eval scenario_cfg_def whitelist_check_def DialContext_def Control_def
        sc_new_eval TrackConnection_def track_ok_def Let_def locate_def clientIP_of_def ipv4_eval)
  ultimately have 6: "fst (Dialer dial_darwin ''tcp'' ''10.1.2.3:443'' scenario_proxy)
      = Inr (Tracked 5 0)"
    by blast
  from 1 2 3 4 5 6 show ?thesis by blast
qed

section \<open>Properties of a tracked connection\<close>

subsection \<open>Traffic adds up in the tracker\<close>

lemma AddBytesIn_eval:
  "deref sc ref = Some ct \<Longrightarrow>
   AddBytesIn n ref sc = sc\<lparr>trackers := (trackers sc)[ref := ct\<lparr>bytesIn := bytesIn ct + n\<rparr>]\<rparr>"
  by (simp add: AddBytesIn_def)

lemma AddBytesOut_eval:
  "deref sc ref = Some ct \<Longrightarrow>
   AddBytesOut n ref sc = sc\<lparr>trackers := (trackers sc)[ref := ct\<lparr>bytesOut := bytesOut ct + n\<rparr>]\<rparr>"
  by (simp add: AddBytesOut_def)

lemma deref_update:
  "deref sc ref = Some ct \<Longrightarrow> deref (sc\<lparr>trackers := (trackers sc)[ref := ct']\<rparr>) ref = Some ct'"
  by (simp add: deref_def split: if_splits)

lemma stream_eval:
  "deref sc ref = Some ct \<Longrightarrow>
   stream evs ref sc =
     sc\<lparr>trackers := (trackers sc)[ref := ct\<lparr>bytesIn := bytesIn ct + word_of_int (total_in evs),
                                           bytesOut := bytesOut ct + word_of_int (total_out evs)\<rparr>]\<rparr>"
proof (induction evs arbitrary: sc ct)
  case Nil
  then have "(trackers sc)[ref := ct] = trackers sc"
    by (auto simp: deref_def split: if_splits)
  then show ?case by simp
next
  case (Cons ev evs)
  show ?case
  proof (cases ev)
    case (Rd n)
    show ?thesis
    proof (cases "n > 0")
      case True
      let ?ct = "ct\<lparr>bytesIn := bytesIn ct + word_of_int n\<rparr>"
      let ?sc = "sc\<lparr>trackers := (trackers sc)[ref := ?ct]\<rparr>"
      have d: "deref ?sc ref = Some ?ct" using Cons.prems by (rule deref_update)
      have "stream (ev # evs) ref sc = stream evs ref ?sc"
        using Rd True Cons.prems by (simp add: trackedConn_Read_def AddBytesIn_eval)
      also have "\<dots> = ?sc\<lparr>trackers := (trackers ?sc)[ref := ?ct\<lparr>
          bytesIn := bytesIn ?ct + word_of_int (total_in evs),
          bytesOut := bytesOut ?ct + word_of_int (total_out evs)\<rparr>]\<rparr>"
        using d by (rule Cons.IH)
      finally show ?thesis using Rd True by (simp add: add.assoc)
    next
      case False
      then show ?thesis using Rd Cons.IH [OF Cons.prems] by (simp add: trackedConn_Read_def)
    qed
  next
    case (Wr n)
    show ?thesis
    proof (cases "n > 0")
      case True
      let ?ct = "ct\<lparr>bytesOut := bytesOut ct + word_of_int n\<rparr>"
      let ?sc = "sc\<lparr>trackers := (trackers sc)[ref := ?ct]\<rparr>"
      have d: "deref ?sc ref = Some ?ct" using Cons.prems by (rule deref_update)
      have "stream (ev # evs) ref sc = stream evs ref ?sc"
        using Wr True Cons.prems by (simp add: trackedConn_Write_def AddBytesOut_eval)
      also have "\<dots> = ?sc\<lparr>trackers := (trackers ?sc)[ref := ?ct\<lparr>
          bytesIn := bytesIn ?ct + word_of_int (total_in evs),
          bytesOut := bytesOut ?ct + word_of_int (total_out evs)\<rparr>]\<rparr>"
        using d by (rule Cons.IH)
      finally show ?thesis using Wr True by (simp add: add.assoc)
    next
      case False
      then show ?thesis using Wr Cons.IH [OF Cons.prems] by (simp add: trackedConn_Write_def)
    qed
  qed
qed

subsection \<open>What creating a tracker does\<close>

lemma TrackConnection_failed:
  "\<not> te_insert_ok env \<Longrightarrow> TrackConnection env clientIP targetAddr sc = (None, sc)"
  by (simp add: TrackConnection_def Let_def split: prod.splits)

lemma TrackConnection_Some:
  assumes "TrackConnection env clientIP targetAddr sc = (Some ref, sc')"
  shows "te_insert_ok env"
  using assms by (cases "te_insert_ok env") (simp_all add: TrackConnection_failed)

lemma TrackConnection_ok:
  assumes "te_insert_ok env"
  shows "fst (TrackConnection env clientIP targetAddr sc) = Some (length (trackers sc))"
    and "trackers (snd (TrackConnection env clientIP targetAddr sc)) =
           trackers sc @ [new_tracker env sc]"
    and "connections (db (snd (TrackConnection env clientIP targetAddr sc))) =
           connections (db sc) @ [new_row env clientIP targetAddr sc]"
    and "server_stats (db (snd (TrackConnection env clientIP targetAddr sc))) =
           server_stats (db (updateServerStats (te_server env) 1 0 0 sc))"
    and "geo_stats (db (snd (TrackConnection env clientIP targetAddr sc))) =
           geo_stats (db (updateGeoStats (te_geo env) (fst (locate env sc)) 0 True sc))"
    and "activeCount (snd (TrackConnection env clientIP targetAddr sc)) = activeCount sc + 1"
    and "retentionDays (snd (TrackConnection env clientIP targetAddr sc)) = retentionDays sc"
  using assms
  by (simp_all add: TrackConnection_def Let_def new_tracker_def new_row_def updateServerStats_def
      updateGeoStats_def split: prod.splits)

subsection \<open>Conversions\<close>

lemma uint_conn_id:
  "0 \<le> n \<Longrightarrow> n < 2 ^ 63 \<Longrightarrow> uint (word_of_int n :: 64 word) = n"
  by (simp add: uint_word_of_int take_bit_int_eq_self)

lemma sint_total:
  "0 \<le> n \<Longrightarrow> n < 2 ^ 63 \<Longrightarrow> sint (word_of_int n :: 64 word) = n"
  by (simp add: sint_sbintrunc' signed_take_bit_int_eq_self)

text \<open>The duration that is stored is within one second of the elapsed time.\<close>

lemma Seconds_int64_bounds:
  assumes "0 \<le> d"
  shows "Seconds_int64 up d * 1000000000 \<le> d + 1000000000"
    and "d < (Seconds_int64 up d + 1) * 1000000000"
    and "d < 16777216000000000 \<Longrightarrow> Seconds_int64 up d = d div 1000000000"
    and "\<not> up \<Longrightarrow> Seconds_int64 up d = d div 1000000000"
  using assms by (auto simp add: Seconds_int64_def Let_def)

subsection \<open>What a step does to one tracker\<close>

lemma deref_Close_other:
  "deref sc ref = Some ct \<Longrightarrow> \<exists>c. deref (Close env a sc) ref = Some (ct\<lparr>closed := c\<rparr>)"
proof (cases "deref sc a")
  case None
  assume "deref sc ref = Some ct"
  then have "deref (Close env a sc) ref = Some (ct\<lparr>closed := closed ct\<rparr>)"
    using None by (simp add: Close_dangling)
  then show ?thesis by blast
next
  case (Some cta)
  assume d: "deref sc ref = Some ct"
  show ?thesis
  proof (cases "closed cta")
    case True
    with Some d have "deref (Close env a sc) ref = Some (ct\<lparr>closed := closed ct\<rparr>)"
      by (simp add: Close_closed)
    then show ?thesis by blast
  next
    case False
    have t: "trackers (Close env a sc) = (trackers sc)[a := cta\<lparr>closed := True\<rparr>]"
      using Some False by (simp add: Close_def Let_def)
    have a: "a < length (trackers sc)" "trackers sc ! a = cta"
      using Some by (simp_all add: deref_def split: if_splits)
    have r: "ref < length (trackers sc)" "trackers sc ! ref = ct"
      using d by (simp_all add: deref_def split: if_splits)
    show ?thesis
    proof (cases "a = ref")
      case True
      with t a r have "deref (Close env a sc) ref = Some (ct\<lparr>closed := True\<rparr>)"
        by (simp add: deref_def)
      then show ?thesis by blast
    next
      case False
      with t a r have "deref (Close env a sc) ref = Some (ct\<lparr>closed := closed ct\<rparr>)"
        by (simp add: deref_def)
      then show ?thesis by blast
    qed
  qed
qed

lemma deref_close_all:
  "deref sc ref = Some ct \<Longrightarrow> \<exists>c. deref (close_all envs refs sc) ref = Some (ct\<lparr>closed := c\<rparr>)"
proof (induction refs arbitrary: sc ct)
  case Nil
  then have "deref (close_all envs [] sc) ref = Some (ct\<lparr>closed := closed ct\<rparr>)" by simp
  then show ?case by blast
next
  case (Cons a refs)
  from deref_Close_other [OF Cons.prems, of "envs a" a] obtain c where
    "deref (Close (envs a) a sc) ref = Some (ct\<lparr>closed := c\<rparr>)" by blast
  from Cons.IH [OF this] obtain c' where
    "deref (close_all envs refs (Close (envs a) a sc)) ref = Some (ct\<lparr>closed := c, closed := c'\<rparr>)"
    by blast
  then have "deref (close_all envs (a # refs) sc) ref = Some (ct\<lparr>closed := c'\<rparr>)" by simp
  then show ?case by blast
qed

lemma deref_sweep [simp]: "deref (cleanupExpiredConnections env sc) ref = deref sc ref"
  by (simp add: deref_def cleanupExpiredConnections_def Let_def)

lemma deref_ticker_loop [simp]: "deref (ticker_loop ticks sc) ref = deref sc ref"
  by (induction ticks arbitrary: sc) simp_all

lemma deref_cleanupLoop [simp]: "deref (cleanupLoop first ticks sc) ref = deref sc ref"
  by (simp add: cleanupLoop_def)

lemma deref_TrackConnection:
  "deref sc ref = Some ct \<Longrightarrow> deref (snd (TrackConnection env clientIP targetAddr sc)) ref = Some ct"
proof (cases "te_insert_ok env")
  case False
  then show "deref sc ref = Some ct \<Longrightarrow> ?thesis" by (simp add: TrackConnection_failed)
next
  case True
  assume "deref sc ref = Some ct"
  then show ?thesis
    by (auto simp add: deref_def TrackConnection_ok(2) [OF True] nth_append split: if_splits)
qed

lemma step_tracker:
  assumes "deref sc ref = Some ct"
  shows "\<exists>c. deref (step x sc) ref =
           Some (ct\<lparr>bytesIn := bytesIn ct + word_of_int (op_in ref x),
                    bytesOut := bytesOut ct + word_of_int (op_out ref x), closed := c\<rparr>)"
proof -
  have r: "ref < length (trackers sc)" "trackers sc ! ref = ct"
    using assms by (simp_all add: deref_def split: if_splits)
  have same: "deref sc' ref = Some ct \<Longrightarrow>
      \<exists>c. deref sc' ref = Some (ct\<lparr>bytesIn := bytesIn ct + word_of_int 0,
                                   bytesOut := bytesOut ct + word_of_int 0, closed := c\<rparr>)" for sc'
    by (rule exI [of _ "closed ct"]) simp
  show ?thesis
  proof (cases x)
    case (OpTrack env clientIP targetAddr)
    with same [OF deref_TrackConnection [OF assms, of env clientIP targetAddr]]
    show ?thesis by simp
  next
    case (OpRead a n)
    show ?thesis unfolding OpRead
      by (rule exI [of _ "closed ct"])
         (use r in \<open>auto simp add: trackedConn_Read_def AddBytesIn_def deref_def nth_list_update
            split: option.splits if_splits\<close>)
  next
    case (OpWrite a n)
    show ?thesis unfolding OpWrite
      by (rule exI [of _ "closed ct"])
         (use r in \<open>auto simp add: trackedConn_Write_def AddBytesOut_def deref_def nth_list_update
            split: option.splits if_splits\<close>)
  next
    case (OpClose env a)
    from deref_Close_other [OF assms, of env a] OpClose show ?thesis by simp
  next
    case (OpCloseAll envs)
    from deref_close_all [OF assms, of envs "map snd (activeConns sc)"] OpCloseAll
    show ?thesis by (simp add: StatsCollector_Close_def)
  next
    case (OpInit r0)
    have "deref (initServerStats r0 sc) ref = Some ct"
      using r by (simp add: initServerStats_def deref_def)
    from same [OF this] OpInit show ?thesis by simp
  next
    case (OpCleanup first ticks)
    have "deref (cleanupLoop first ticks sc) ref = Some ct"
      using assms by simp
    from same [OF this] OpCleanup show ?thesis by simp
  qed
qed

lemma run_tracker:
  "deref sc ref = Some ct \<Longrightarrow>
   \<exists>c. deref (run ops sc) ref =
          Some (ct\<lparr>bytesIn := bytesIn ct + word_of_int (ops_in ref ops),
                   bytesOut := bytesOut ct + word_of_int (ops_out ref ops), closed := c\<rparr>)"
proof (induction ops arbitrary: sc ct)
  case Nil
  then have "deref (run [] sc) ref =
      Some (ct\<lparr>bytesIn := bytesIn ct + word_of_int (ops_in ref []),
               bytesOut := bytesOut ct + word_of_int (ops_out ref []), closed := closed ct\<rparr>)"
    by simp
  then show ?case by blast
next
  case (Cons x ops)
  from step_tracker [OF Cons.prems, of x] obtain c where
    1: "deref (step x sc) ref =
         Some (ct\<lparr>bytesIn := bytesIn ct + word_of_int (op_in ref x),
                  bytesOut := bytesOut ct + word_of_int (op_out ref x), closed := c\<rparr>)"
    by blast
  from Cons.IH [OF 1] obtain c' where
    "deref (run ops (step x sc)) ref =
       Some (ct\<lparr>bytesIn := bytesIn ct + word_of_int (op_in ref x),
                bytesOut := bytesOut ct + word_of_int (op_out ref x), closed := c,
                bytesIn := bytesIn ct + word_of_int (op_in ref x) + word_of_int (ops_in ref ops),
                bytesOut := bytesOut ct + word_of_int (op_out ref x) + word_of_int (ops_out ref ops),
                closed := c'\<rparr>)"
    by auto
  then have "deref (run (x # ops) sc) ref =
      Some (ct\<lparr>bytesIn := bytesIn ct + word_of_int (ops_in ref (x # ops)),
               bytesOut := bytesOut ct + word_of_int (ops_out ref (x # ops)), closed := c'\<rparr>)"
    by (simp add: add.assoc)
  then show ?case by blast
qed

lemma ops_nonneg: "0 \<le> ops_in ref ops" "0 \<le> ops_out ref ops"
proof -
  have "0 \<le> op_in ref x" "0 \<le> op_out ref x" for x by (cases x; simp)+
  then show "0 \<le> ops_in ref ops" "0 \<le> ops_out ref ops"
    by (induction ops) (simp_all add: add_nonneg_nonneg)
qed

text \<open>Two records, tracked one second and 100 days into the run.\<close>

lemma sc_two_eval:
  "sc_two = sc_tracked\<lparr>db := \<lparr>connections = connections (db sc_tracked) @
        [\<lparr>ID = 2, ClientIP = ''198.51.100.9'', TargetAddr = ''example.com:80'',
          Country = ''Unknown'', City = '''', BytesIn = 0, BytesOut = 0,
          ConnectedAt = utc 8640000000000000, DisconnectedAt = None, Duration = None\<rparr>],
      conn_seq = 2,
      server_stats = Some \<lparr>StartTime = 0, TotalConnections = 2, TotalBytesIn = 0,
        TotalBytesOut = 0, UpdatedAt = 8640000000000001\<rparr>,
      geo_stats = []\<rparr>,
    activeConns := [(1, 0), (2, 1)], activeCount := 2, totalConns := 2,
    trackers := trackers sc_tracked @ [\<lparr>tracker_id = 2, country = ''Unknown'', bytesIn = 0,
      bytesOut = 0, startTime = utc 8640000000000000, closed = False\<rparr>]\<rparr>"
  by (simp add: sc_two_def sc_tracked_eval TrackConnection_def track_later_def ok_at_def
      locate_def Let_def updateServerStats_def updateGeoStats_def)

section \<open>Properties of the country aggregate\<close>

text \<open>
  Claim C9. When the looked-up country is \<^verbatim>\<open>Unknown\<close> or empty, creating the tracker
  leaves the \<^verbatim>\<open>geo_stats\<close> table as it was; the tracker carries the looked-up country;
  and closing a tracker with such a country leaves the table as it was. In the small run
  the server row counts one connection while the country rows count none.
\<close>

theorem unknown_country_leaves_geo_stats:
  "(fst (locate env sc) = ''Unknown'' \<or> fst (locate env sc) = '''' \<longrightarrow>
      geo_stats (db (snd (TrackConnection env clientIP targetAddr sc))) = geo_stats (db sc))
   \<and> (TrackConnection env clientIP targetAddr sc = (Some ref', sc') \<longrightarrow>
        map_option country (deref sc' ref') = Some (fst (locate env sc)))
   \<and> (deref sc ref = Some ct \<longrightarrow> country ct = ''Unknown'' \<or> country ct = '''' \<longrightarrow>
        geo_stats (db (Close cenv ref sc)) = geo_stats (db sc))
   \<and> map_option TotalConnections (server_stats (db sc_tracked)) = Some 1
   \<and> sum_list (map Connections (geo_stats (db sc_tracked))) = 0"
proof -
  have 1: "fst (locate env sc) = ''Unknown'' \<or> fst (locate env sc) = '''' \<longrightarrow>
      geo_stats (db (snd (TrackConnection env clientIP targetAddr sc))) = geo_stats (db sc)"
  proof (cases "te_insert_ok env")
    case True
    then show ?thesis
      by (auto simp add: TrackConnection_ok(5) updateGeoStats_def)
  next
    case False
    then show ?thesis by (simp add: TrackConnection_failed)
  qed
  have 2: "TrackConnection env clientIP targetAddr sc = (Some ref', sc') \<longrightarrow>
        map_option country (deref sc' ref') = Some (fst (locate env sc))"
  proof
    assume t: "TrackConnection env clientIP targetAddr sc = (Some ref', sc')"
    then have ins: "te_insert_ok env" by (rule TrackConnection_Some)
    from TrackConnection_ok(1,2) [OF ins, of clientIP targetAddr sc] t
    show "map_option country (deref sc' ref') = Some (fst (locate env sc))"
      by (simp add: deref_def new_tracker_def)
  qed
  have 3: "deref sc ref = Some ct \<longrightarrow> country ct = ''Unknown'' \<or> country ct = '''' \<longrightarrow>
        geo_stats (db (Close cenv ref sc)) = geo_stats (db sc)"
  proof (cases "deref sc ref = Some ct \<and> closed ct")
    case True
    then show ?thesis by (simp add: Close_closed)
  next
    case False
    then show ?thesis
      by (auto simp add: Close_open_geo updateGeoStats_def)
  qed
  have 4: "map_option TotalConnections (server_stats (db sc_tracked)) = Some 1"
    "sum_list (map Connections (geo_stats (db sc_tracked))) = 0"
    by (simp_all add: sc_tracked_eval)
  from 1 2 3 4 show ?thesis by blast
qed

text \<open>The connection of the small run, created without GeoIP and then closed.\<close>

theorem unknown_country_leaves_geo_stats_witness:
  "fst (locate track_ok sc_new) = ''Unknown''
   \<and> geo_stats (db (snd (TrackConnection track_ok ''203.0.113.7'' ''example.com:443'' sc_new))) = []
   \<and> map_option country (deref sc_tracked 0) = Some ''Unknown''
   \<and> geo_stats (db (Close close_first 0 sc_tracked)) = []"
proof -
  have l: "fst (locate track_ok sc_new) = ''Unknown''"
    by (simp add: locate_def sc_new_eval)
  have t: "TrackConnection track_ok ''203.0.113.7'' ''example.com:443'' sc_new = (Some 0, sc_tracked)"
    by (simp add: sc_tracked_def sc_new_eval TrackConnection_def track_ok_def Let_def locate_def
        split: prod.splits)
  have d: "deref sc_tracked 0 = Some \<lparr>tracker_id = 1, country = ''Unknown'', bytesIn = 0,
      bytesOut = 0, startTime = utc 1000000000, closed = False\<rparr>"
    by (simp add: sc_tracked_eval deref_def)
  note th = unknown_country_leaves_geo_stats [where env = track_ok and sc = sc_new
      and clientIP = "''203.0.113.7''" and targetAddr = "''example.com:443''"
      and ref' = 0 and sc' = sc_tracked]
  note th' = unknown_country_leaves_geo_stats [where sc = sc_tracked and ref = 0
      and ct = "\<lparr>tracker_id = 1, country = ''Unknown'', bytesIn = 0,
      bytesOut = 0, startTime = utc 1000000000, closed = False\<rparr>" and cenv = close_first]
  have a: "geo_stats (db (snd (TrackConnection track_ok ''203.0.113.7'' ''example.com:443'' sc_new)))
      = geo_stats (db sc_new)"
    using th l by blast
  have c: "map_option country (deref sc_tracked 0) = Some ''Unknown''"
    using th t l by simp
  have b: "geo_stats (db (Close close_first 0 sc_tracked)) = geo_stats (db sc_tracked)"
    using th' d by simp
  from l a b c show ?thesis by (simp add: sc_new_eval fresh_db_def sc_tracked_eval)
qed

section \<open>Properties of a collector without retention\<close>

subsection \<open>No operation changes the retention setting\<close>

lemma retentionDays_Close [simp]: "retentionDays (Close env ref sc) = retentionDays sc"
  by (simp add: Close_def Let_def updateServerStats_def updateGeoStats_def split: option.splits)

lemma retentionDays_close_all [simp]: "retentionDays (close_all envs refs sc) = retentionDays sc"
  by (induction refs arbitrary: sc) simp_all

lemma retentionDays_sweep [simp]:
  "retentionDays (cleanupExpiredConnections env sc) = retentionDays sc"
  by (simp add: cleanupExpiredConnections_def)

lemma retentionDays_ticker_loop [simp]: "retentionDays (ticker_loop ticks sc) = retentionDays sc"
  by (induction ticks arbitrary: sc) simp_all

lemma retentionDays_TrackConnection [simp]:
  "retentionDays (snd (TrackConnection env clientIP targetAddr sc)) = retentionDays sc"
  by (cases "te_insert_ok env") (simp_all add: TrackConnection_ok(7) TrackConnection_failed)

lemma retentionDays_step [simp]: "retentionDays (step x sc) = retentionDays sc"
  by (cases x)
    (simp_all add: trackedConn_Read_def trackedConn_Write_def AddBytesIn_def AddBytesOut_def
      StatsCollector_Close_def initServerStats_def cleanupLoop_def split: option.splits)

lemma retentionDays_run [simp]: "retentionDays (run ops sc) = retentionDays sc"
  by (induction ops arbitrary: sc) simp_all

subsection \<open>Without retention no operation removes a record\<close>

lemma ID_update_connection [simp]: "ID (update_connection rid bi bo disc dur row) = ID row"
  by (simp add: update_connection_def)

lemma ids_Close: "map ID (connections (db (Close env ref sc))) = map ID (connections (db sc))"
proof (cases "deref sc ref")
  case None
  then show ?thesis by (simp add: Close_dangling)
next
  case (Some ct)
  then show ?thesis
    by (cases "closed ct") (simp_all add: Close_closed Close_open_connections o_def)
qed

lemma ids_close_all:
  "map ID (connections (db (close_all envs refs sc))) = map ID (connections (db sc))"
  by (induction refs arbitrary: sc) (simp_all add: ids_Close)

lemma connections_stream_step:
  "connections (db (trackedConn_Read n ref sc)) = connections (db sc)"
  "connections (db (trackedConn_Write n ref sc)) = connections (db sc)"
  by (simp_all add: trackedConn_Read_def trackedConn_Write_def AddBytesIn_def AddBytesOut_def
      split: option.splits)

lemma ids_step:
  assumes "retentionDays sc \<le> 0"
  shows "\<exists>rest. map ID (connections (db (step x sc))) = map ID (connections (db sc)) @ rest"
proof (cases x)
  case (OpTrack env clientIP targetAddr)
  then show ?thesis
    by (cases "te_insert_ok env") (simp_all add: TrackConnection_ok(3) TrackConnection_failed)
next
  case (OpCleanup first ticks)
  then show ?thesis using assms by (simp add: cleanupLoop_def)
qed (simp_all add: connections_stream_step ids_Close ids_close_all StatsCollector_Close_def
    initServerStats_def)

lemma ids_run:
  "retentionDays sc \<le> 0 \<Longrightarrow>
   \<exists>rest. map ID (connections (db (run ops sc))) = map ID (connections (db sc)) @ rest"
proof (induction ops arbitrary: sc)
  case Nil
  then show ?case by simp
next
  case (Cons x ops)
  from Cons.prems obtain r1 where
    1: "map ID (connections (db (step x sc))) = map ID (connections (db sc)) @ r1"
    using ids_step by blast
  from Cons.prems have "retentionDays (step x sc) \<le> 0" by simp
  then obtain r2 where
    "map ID (connections (db (run ops (step x sc)))) = map ID (connections (db (step x sc))) @ r2"
    using Cons.IH by blast
  with 1 show ?case by simp
qed

lemma NewStatsCollector_fields:
  "retentionDays (NewStatsCollector now r d geo rd) = (if rd < 0 then 0 else rd)"
  "connections (db (NewStatsCollector now r d geo rd)) = connections d"
  by (simp_all add: NewStatsCollector_def initServerStats_def Let_def)

text \<open>
  Claim C10. A collector constructed with a retention of zero or fewer days has the
  retention 0. After any operations on it, \<^verbatim>\<open>cleanupLoop\<close> returns at once, whatever
  ticks it would see, and the records of the store it was constructed on are all still
  there, in order (followed by those created since).
\<close>

theorem retention_disabled_never_sweeps:
  "retentionDays' \<le> 0 \<longrightarrow>
     retentionDays (NewStatsCollector now r d geo retentionDays') = 0
     \<and> cleanupLoop first ticks (run ops (NewStatsCollector now r d geo retentionDays')) =
         run ops (NewStatsCollector now r d geo retentionDays')
     \<and> (\<exists>rest. map ID (connections (db (cleanupLoop first ticks
                   (run ops (NewStatsCollector now r d geo retentionDays'))))) =
           map ID (connections d) @ rest)"
proof
  assume le: "retentionDays' \<le> 0"
  let ?sc = "NewStatsCollector now r d geo retentionDays'"
  have rd: "retentionDays ?sc = 0" using le by (simp add: NewStatsCollector_fields)
  have loop: "cleanupLoop first ticks (run ops ?sc) = run ops ?sc"
    using rd by (simp add: cleanupLoop_def)
  have "\<exists>rest. map ID (connections (db (run ops ?sc))) = map ID (connections (db ?sc)) @ rest"
    using rd by (intro ids_run) simp
  then have ids: "\<exists>rest. map ID (connections (db (cleanupLoop first ticks (run ops ?sc)))) =
           map ID (connections d) @ rest"
    by (simp add: loop NewStatsCollector_fields)
  from rd loop ids
  show "retentionDays ?sc = 0 \<and> cleanupLoop first ticks (run ops ?sc) = run ops ?sc
     \<and> (\<exists>rest. map ID (connections (db (cleanupLoop first ticks (run ops ?sc)))) =
           map ID (connections d) @ rest)"
    by blast
qed



text \<open>
  Constructed with \<open>- 1\<close>: a record one second old survives the loop on day 120.
\<close>

theorem retention_disabled_never_sweeps_witness:
  "(- 1 :: int) \<le> 0
   \<and> retentionDays sc_keep = 0
   \<and> map ID (connections (db (cleanupLoop sweep_ok [sweep_ok]
        (run [OpTrack track_ok ''203.0.113.7'' ''example.com:443''] sc_keep)))) = [1]"
proof -
  have le: "(- 1 :: int) \<le> 0" by simp
  note th = retention_disabled_never_sweeps [rule_format, OF le, of 0 "ok_at 0" fresh_db False
      sweep_ok "[sweep_ok]" "[OpTrack track_ok ''203.0.113.7'' ''example.com:443'']"]
  have rd: "retentionDays sc_keep = 0"
    using th unfolding sc_keep_def by blast
  have "cleanupLoop sweep_ok [sweep_ok]
        (run [OpTrack track_ok ''203.0.113.7'' ''example.com:443''] sc_keep)
      = run [OpTrack track_ok ''203.0.113.7'' ''example.com:443''] sc_keep"
    using th unfolding sc_keep_def by blast
  moreover have "map ID (connections (db
      (run [OpTrack track_ok ''203.0.113.7'' ''example.com:443''] sc_keep))) = [1]"
    by (simp add: sc_keep_def NewStatsCollector_def initServerStats_def fresh_db_def
        TrackConnection_def track_ok_def Let_def locate_def)
  ultimately show ?thesis using le rd by simp
qed

section \<open>Properties of the server aggregate\<close>

lemma counters_ok_deref:
  "counters_ok sc \<Longrightarrow> deref sc ref = Some ct \<Longrightarrow> 0 \<le> sint (bytesIn ct) \<and> 0 \<le> sint (bytesOut ct)"
  by (auto simp add: counters_ok_def deref_def list_all_length split: if_splits)

lemma counters_ok_Close: "counters_ok sc \<Longrightarrow> counters_ok (Close env ref sc)"
proof (cases "deref sc ref")
  case None
  then show "counters_ok sc \<Longrightarrow> counters_ok (Close env ref sc)" by (simp add: Close_dangling)
next
  case (Some ct)
  assume ok: "counters_ok sc"
  show "counters_ok (Close env ref sc)"
  proof (cases "closed ct")
    case True
    with Some ok show ?thesis by (simp add: Close_closed)
  next
    case False
    have "trackers (Close env ref sc) = (trackers sc)[ref := ct\<lparr>closed := True\<rparr>]"
      using Some False by (simp add: Close_def Let_def)
    moreover have "0 \<le> sint (bytesIn ct) \<and> 0 \<le> sint (bytesOut ct)"
      using ok Some by (rule counters_ok_deref)
    ultimately show ?thesis
      using ok set_update_subset_insert [of "trackers sc" ref "ct\<lparr>closed := True\<rparr>"]
      by (auto simp add: counters_ok_def list_all_iff)
  qed
qed

text \<open>What one close does to the server row.\<close>

lemma Close_server_row:
  assumes "server_stats (db sc) = Some r"
  shows "\<exists>r'. server_stats (db (Close env ref sc)) = Some r'
      \<and> TotalConnections r' = TotalConnections r
      \<and> (counters_ok sc \<longrightarrow> TotalBytesIn r \<le> TotalBytesIn r' \<and> TotalBytesOut r \<le> TotalBytesOut r')"
proof (cases "deref sc ref")
  case None
  then show ?thesis using assms by (simp add: Close_dangling)
next
  case (Some ct)
  show ?thesis
  proof (cases "closed ct")
    case True
    with Some assms show ?thesis by (simp add: Close_closed)
  next
    case False
    have "counters_ok sc \<longrightarrow> 0 \<le> sint (bytesIn ct) \<and> 0 \<le> sint (bytesOut ct)"
      using Some by (simp add: counters_ok_deref)
    then show ?thesis
      using assms by (simp add: Close_open_server [OF Some False] updateServerStats_def)
  qed
qed

lemma close_all_server_row:
  "server_stats (db sc) = Some r \<Longrightarrow>
   \<exists>r'. server_stats (db (close_all envs refs sc)) = Some r'
      \<and> TotalConnections r' = TotalConnections r
      \<and> (counters_ok sc \<longrightarrow> TotalBytesIn r \<le> TotalBytesIn r' \<and> TotalBytesOut r \<le> TotalBytesOut r')"
proof (induction refs arbitrary: sc r)
  case Nil
  then show ?case by simp
next
  case (Cons ref refs)
  from Close_server_row [OF Cons.prems, of "envs ref" ref] obtain r1 where
    1: "server_stats (db (Close (envs ref) ref sc)) = Some r1"
      "TotalConnections r1 = TotalConnections r"
      "counters_ok sc \<longrightarrow> TotalBytesIn r \<le> TotalBytesIn r1 \<and> TotalBytesOut r \<le> TotalBytesOut r1"
    by blast
  from Cons.IH [OF 1(1)] obtain r2 where
    2: "server_stats (db (close_all envs refs (Close (envs ref) ref sc))) = Some r2"
      "TotalConnections r2 = TotalConnections r1"
      "counters_ok (Close (envs ref) ref sc) \<longrightarrow>
         TotalBytesIn r1 \<le> TotalBytesIn r2 \<and> TotalBytesOut r1 \<le> TotalBytesOut r2"
    by blast
  have "counters_ok sc \<longrightarrow> TotalBytesIn r \<le> TotalBytesIn r2 \<and> TotalBytesOut r \<le> TotalBytesOut r2"
    using 1(3) 2(3) counters_ok_Close [of sc "envs ref" ref] by auto
  with 1(2) 2(1,2) show ?case by simp
qed

lemma server_stats_sweep [simp]:
  "server_stats (db (cleanupExpiredConnections env sc)) = server_stats (db sc)"
  by (simp add: cleanupExpiredConnections_def)

lemma server_stats_ticker_loop [simp]:
  "server_stats (db (ticker_loop ticks sc)) = server_stats (db sc)"
  by (induction ticks arbitrary: sc) simp_all

lemma server_stats_stream_step:
  "server_stats (db (trackedConn_Read n ref sc)) = server_stats (db sc)"
  "server_stats (db (trackedConn_Write n ref sc)) = server_stats (db sc)"
  by (simp_all add: trackedConn_Read_def trackedConn_Write_def AddBytesIn_def AddBytesOut_def
      split: option.splits)

lemma TrackConnection_server_row:
  assumes "server_stats (db sc) = Some r"
  shows "\<exists>r'. server_stats (db (snd (TrackConnection env clientIP targetAddr sc))) = Some r'
      \<and> TotalConnections r' =
          TotalConnections r + (if te_insert_ok env \<and> stmt_ok (te_server env) then 1 else 0)
      \<and> TotalBytesIn r' = TotalBytesIn r \<and> TotalBytesOut r' = TotalBytesOut r"
  using assms
  by (cases "te_insert_ok env")
    (simp_all add: TrackConnection_ok(4) TrackConnection_failed updateServerStats_def)

text \<open>
  Claim C5, as stated, fails: a creation succeeds and returns its tracker, the store fails
  the \<^verbatim>\<open>UPDATE server_stats\<close> that follows (the error is logged), and
  \<^verbatim>\<open>total_connections\<close> is what it was.
\<close>

theorem server_totals_counterexample:
  "TrackConnection track_stats_failed ''203.0.113.7'' ''example.com:443'' sc_new =
     (Some 0, sc_tracked\<lparr>db := (db sc_tracked)\<lparr>server_stats := server_stats (db sc_new)\<rparr>\<rparr>)
   \<and> map_option TotalConnections (server_stats (db sc_new)) = Some 0
   \<and> map_option TotalConnections (server_stats (db (snd
        (TrackConnection track_stats_failed ''203.0.113.7'' ''example.com:443'' sc_new)))) = Some 0"
  by (simp add: sc_tracked_eval sc_new_eval fresh_db_def TrackConnection_def track_stats_failed_def
      track_ok_def failed_at_def ok_at_def Let_def locate_def updateServerStats_def
      updateGeoStats_def)

text \<open>
  Claim C5, amended. A successful creation adds 1 to \<^verbatim>\<open>total_connections\<close> when its
  \<^verbatim>\<open>UPDATE server_stats\<close> executes and nothing when the store fails it; a close adds
  nothing to it; no operation of the collector lowers it; and no operation lowers
  \<^verbatim>\<open>total_bytes_in\<close> or \<^verbatim>\<open>total_bytes_out\<close> as long as no byte counter of a tracker
  has wrapped around.
\<close>

theorem server_totals:
  "(TrackConnection tenv clientIP targetAddr sc = (Some ref', sc') \<longrightarrow>
      server_stats (db sc) = Some r \<longrightarrow>
      map_option TotalConnections (server_stats (db sc')) =
        Some (TotalConnections r + (if stmt_ok (te_server tenv) then 1 else 0)))
   \<and> (server_stats (db sc) = Some r \<longrightarrow>
        map_option TotalConnections (server_stats (db (Close cenv ref sc))) =
          Some (TotalConnections r))
   \<and> (server_stats (db sc) = Some r \<longrightarrow>
        (\<exists>r'. server_stats (db (step x sc)) = Some r'
           \<and> TotalConnections r \<le> TotalConnections r'
           \<and> (counters_ok sc \<longrightarrow>
                TotalBytesIn r \<le> TotalBytesIn r' \<and> TotalBytesOut r \<le> TotalBytesOut r')))"
proof -
  have 1: "TrackConnection tenv clientIP targetAddr sc = (Some ref', sc') \<longrightarrow>
      server_stats (db sc) = Some r \<longrightarrow>
      map_option TotalConnections (server_stats (db sc')) =
        Some (TotalConnections r + (if stmt_ok (te_server tenv) then 1 else 0))"
  proof (intro impI)
    assume t: "TrackConnection tenv clientIP targetAddr sc = (Some ref', sc')"
      and s: "server_stats (db sc) = Some r"
    from t have ins: "te_insert_ok tenv" by (rule TrackConnection_Some)
    from TrackConnection_server_row [OF s, of tenv clientIP targetAddr] t ins
    show "map_option TotalConnections (server_stats (db sc')) =
        Some (TotalConnections r + (if stmt_ok (te_server tenv) then 1 else 0))"
      by auto
  qed
  have 2: "server_stats (db sc) = Some r \<longrightarrow>
        map_option TotalConnections (server_stats (db (Close cenv ref sc))) =
          Some (TotalConnections r)"
    using Close_server_row [of sc r cenv ref] by auto
  have 3: "server_stats (db sc) = Some r \<longrightarrow>
        (\<exists>r'. server_stats (db (step x sc)) = Some r'
           \<and> TotalConnections r \<le> TotalConnections r'
           \<and> (counters_ok sc \<longrightarrow>
                TotalBytesIn r \<le> TotalBytesIn r' \<and> TotalBytesOut r \<le> TotalBytesOut r'))"
  proof
    assume s: "server_stats (db sc) = Some r"
    show "\<exists>r'. server_stats (db (step x sc)) = Some r'
           \<and> TotalConnections r \<le> TotalConnections r'
           \<and> (counters_ok sc \<longrightarrow>
                TotalBytesIn r \<le> TotalBytesIn r' \<and> TotalBytesOut r \<le> TotalBytesOut r')"
    proof (cases x)
      case (OpTrack env cip addr)
      then show ?thesis using TrackConnection_server_row [OF s, of env cip addr] by auto
    next
      case (OpRead a n)
      then show ?thesis using s by (simp add: server_stats_stream_step)
    next
      case (OpWrite a n)
      then show ?thesis using s by (simp add: server_stats_stream_step)
    next
      case (OpClose env a)
      then show ?thesis using Close_server_row [OF s, of env a] by auto
    next
      case (OpCloseAll envs)
      then show ?thesis
        using close_all_server_row [OF s, of envs "map snd (activeConns sc)"]
        by (auto simp add: StatsCollector_Close_def)
    next
      case (OpInit r0)
      then show ?thesis using s by (simp add: initServerStats_def)
    next
      case (OpCleanup first ticks)
      then show ?thesis using s by (simp add: cleanupLoop_def)
    qed
  qed
  from 1 2 3 show ?thesis by blast
qed



text \<open>The small run: the count goes from 0 to 1 at creation and stays 1 at close.\<close>

theorem server_totals_witness:
  "TrackConnection track_ok ''203.0.113.7'' ''example.com:443'' sc_new = (Some 0, sc_tracked)
   \<and> map_option TotalConnections (server_stats (db sc_new)) = Some 0
   \<and> map_option TotalConnections (server_stats (db sc_tracked)) = Some 1
   \<and> map_option TotalConnections
        (server_stats (db (Close close_first 0 (stream traffic 0 sc_tracked)))) = Some 1
   \<and> counters_ok (stream traffic 0 sc_tracked)
   \<and> (\<exists>r'. server_stats (db (step (OpClose close_first 0) (stream traffic 0 sc_tracked))) = Some r'
          \<and> 1 \<le> TotalConnections r' \<and> 0 \<le> TotalBytesIn r' \<and> 0 \<le> TotalBytesOut r')"
proof -
  have t: "TrackConnection track_ok ''203.0.113.7'' ''example.com:443'' sc_new = (Some 0, sc_tracked)"
    by (simp add: sc_tracked_def sc_new_eval TrackConnection_def track_ok_def Let_def locate_def
        split: prod.splits)
  have s0: "server_stats (db sc_new) = Some \<lparr>StartTime = 0, TotalConnections = 0,
      TotalBytesIn = 0, TotalBytesOut = 0, UpdatedAt = 0\<rparr>"
    by (simp add: sc_new_eval fresh_db_def)
  have d: "deref sc_tracked 0 = Some \<lparr>tracker_id = 1, country = ''Unknown'', bytesIn = 0,
      bytesOut = 0, startTime = utc 1000000000, closed = False\<rparr>"
    by (simp add: sc_tracked_eval deref_def)
  have s1: "server_stats (db (stream traffic 0 sc_tracked)) = Some \<lparr>StartTime = 0,
      TotalConnections = 1, TotalBytesIn = 0, TotalBytesOut = 0, UpdatedAt = 1000000001\<rparr>"
    by (simp add: stream_eval [OF d]) (simp add: sc_tracked_eval)
  have c: "counters_ok (stream traffic 0 sc_tracked)"
    by (simp add: stream_eval [OF d]) (simp add: sc_tracked_eval counters_ok_def traffic_def)
  have a: "map_option TotalConnections (server_stats (db sc_tracked)) = Some 1"
    using server_totals [THEN conjunct1, rule_format, OF t s0] by (simp add: track_ok_def ok_at_def)
  have b: "map_option TotalConnections
        (server_stats (db (Close close_first 0 (stream traffic 0 sc_tracked)))) = Some 1"
    using server_totals [THEN conjunct2, THEN conjunct1, rule_format, OF s1, of close_first 0]
    by simp
  have e: "\<exists>r'. server_stats (db (step (OpClose close_first 0) (stream traffic 0 sc_tracked))) = Some r'
          \<and> 1 \<le> TotalConnections r' \<and> 0 \<le> TotalBytesIn r' \<and> 0 \<le> TotalBytesOut r'"
    using server_totals [THEN conjunct2, THEN conjunct2, rule_format, OF s1,
        of "OpClose close_first 0"] c
    by auto
  from t s0 a b c e show ?thesis by simp
qed

text \<open>
  Why the byte totals need the counters not to have wrapped: a tracker that has counted
  \<open>2 ^ 63\<close> bytes holds a negative \<^verbatim>\<open>int64\<close>, and its close lowers the total.
\<close>

lemma wrapped_counter_lowers_total:
  "map_option TotalBytesIn (server_stats (db sc_tracked)) = Some 0
   \<and> map_option TotalBytesIn (server_stats (db
        (Close close_first 0 (stream [Rd 9223372036854775807, Rd 1] 0 sc_tracked))))
      = Some (- 9223372036854775808)"
proof -
  have d: "deref sc_tracked 0 = Some \<lparr>tracker_id = 1, country = ''Unknown'', bytesIn = 0,
      bytesOut = 0, startTime = utc 1000000000, closed = False\<rparr>"
    by (simp add: sc_tracked_eval deref_def)
  let ?ct = "\<lparr>tracker_id = 1, country = ''Unknown'', bytesIn = 9223372036854775808,
      bytesOut = 0, startTime = utc 1000000000, closed = False\<rparr> :: ConnectionTracker"
  have s: "stream [Rd 9223372036854775807, Rd 1] 0 sc_tracked
      = sc_tracked\<lparr>trackers := [?ct]\<rparr>"
    by (simp add: stream_eval [OF d]) (simp add: sc_tracked_eval)
  have d2: "deref (sc_tracked\<lparr>trackers := [?ct]\<rparr>) 0 = Some ?ct"
    by (simp add: deref_def)
  have "sint (9223372036854775808 :: 64 word) = - 9223372036854775808"
    by simp
  then show ?thesis
    unfolding s
    by (simp add: Close_open_server [OF d2] updateServerStats_def close_first_def ok_at_def)
      (simp add: sc_tracked_eval)
qed

section \<open>Properties of the refresh\<close>

subsection \<open>A goroutine is the sequence of its steps\<close>

lemma add_resolved_steps:
  "add_resolved lib ips st = fold apply_action (resolved_steps lib ips) st"
  by (induction ips arbitrary: st) (simp_all split: sum.splits)

lemma checkHostIPs_steps: "checkHostIPs lib host st = fold apply_action (host_steps lib host) st"
  by (simp add: checkHostIPs_def host_steps_def add_resolved_steps split: sum.splits)

lemma fold_steps_ranges:
  "set (ipRanges (fold apply_action steps st)) = set (ipRanges st) \<union> ranges_of steps"
  by (induction steps arbitrary: st rule: ranges_of.induct) auto

lemma fold_steps_ips:
  "whitelist (fold apply_action steps st) = whitelist st \<union> ips_of steps"
  by (induction steps arbitrary: st rule: ips_of.induct) auto

lemma check_hosts_ranges:
  "set (ipRanges (check_hosts lib hosts st)) =
     set (ipRanges st) \<union> pool_ranges (map (host_steps lib) hosts)"
  by (induction hosts arbitrary: st) (auto simp add: checkHostIPs_steps fold_steps_ranges)

lemma check_hosts_ips:
  "whitelist (check_hosts lib hosts st) = whitelist st \<union> pool_ips (map (host_steps lib) hosts)"
  by (induction hosts arbitrary: st) (auto simp add: checkHostIPs_steps fold_steps_ips)

lemma checkIPs_ranges:
  "set (ipRanges (checkIPs lib cfg_wl st)) = pool_ranges (map (host_steps lib) cfg_wl)"
  by (simp add: checkIPs_def check_hosts_ranges)

lemma checkIPs_ips:
  "whitelist (checkIPs lib cfg_wl st) = whitelist st \<union> pool_ips (map (host_steps lib) cfg_wl)"
  by (simp add: checkIPs_def check_hosts_ips)

subsection \<open>What a step of the schedule preserves\<close>

lemma pool_ranges_update:
  "i < length pool \<Longrightarrow> pool ! i = a # rest \<Longrightarrow>
   pool_ranges pool = ranges_of [a] \<union> pool_ranges (pool[i := rest])"
proof (induction pool arbitrary: i)
  case Nil
  then show ?case by simp
next
  case (Cons steps pool)
  show ?case
  proof (cases i)
    case 0
    with Cons.prems show ?thesis by (cases a) auto
  next
    case (Suc j)
    with Cons.prems have "pool_ranges pool = ranges_of [a] \<union> pool_ranges (pool[j := rest])"
      by (intro Cons.IH) simp_all
    with Suc show ?thesis by auto
  qed
qed

lemma pool_ips_update:
  "i < length pool \<Longrightarrow> pool ! i = a # rest \<Longrightarrow>
   pool_ips pool = ips_of [a] \<union> pool_ips (pool[i := rest])"
proof (induction pool arbitrary: i)
  case Nil
  then show ?case by simp
next
  case (Cons steps pool)
  show ?case
  proof (cases i)
    case 0
    with Cons.prems show ?thesis by (cases a) auto
  next
    case (Suc j)
    with Cons.prems have "pool_ips pool = ips_of [a] \<union> pool_ips (pool[j := rest])"
      by (intro Cons.IH) simp_all
    with Suc show ?thesis by auto
  qed
qed

lemma sched_step_ranges:
  "set (ipRanges (snd (sched_step i r))) \<union> pool_ranges (fst (sched_step i r)) =
   set (ipRanges (snd r)) \<union> pool_ranges (fst r)"
proof (cases "i < length (fst r)")
  case False
  then show ?thesis by (simp add: sched_step_def)
next
  case True
  show ?thesis
  proof (cases "fst r ! i")
    case Nil
    with True show ?thesis by (simp add: sched_step_def)
  next
    case (Cons a rest)
    from pool_ranges_update [OF True Cons] Cons True show ?thesis
      by (cases a) (auto simp add: sched_step_def)
  qed
qed

lemma sched_step_ips:
  "whitelist (snd (sched_step i r)) \<union> pool_ips (fst (sched_step i r)) =
   whitelist (snd r) \<union> pool_ips (fst r)"
proof (cases "i < length (fst r)")
  case False
  then show ?thesis by (simp add: sched_step_def)
next
  case True
  show ?thesis
  proof (cases "fst r ! i")
    case Nil
    with True show ?thesis by (simp add: sched_step_def)
  next
    case (Cons a rest)
    from pool_ips_update [OF True Cons] Cons True show ?thesis
      by (cases a) (auto simp add: sched_step_def)
  qed
qed

lemma sched_step_grows: "whitelist (snd r) \<subseteq> whitelist (snd (sched_step i r))"
proof (cases "i < length (fst r)")
  case False
  then show ?thesis by (simp add: sched_step_def)
next
  case True
  show ?thesis
  proof (cases "fst r ! i")
    case Nil
    with True show ?thesis by (simp add: sched_step_def)
  next
    case (Cons a rest)
    with True show ?thesis by (cases a) (auto simp add: sched_step_def)
  qed
qed

lemma run_schedule_ranges:
  "set (ipRanges (snd (run_schedule sch r))) \<union> pool_ranges (fst (run_schedule sch r)) =
   set (ipRanges (snd r)) \<union> pool_ranges (fst r)"
  by (induction sch arbitrary: r) (simp_all add: sched_step_ranges)

lemma run_schedule_ips:
  "whitelist (snd (run_schedule sch r)) \<union> pool_ips (fst (run_schedule sch r)) =
   whitelist (snd r) \<union> pool_ips (fst r)"
  by (induction sch arbitrary: r) (simp_all add: sched_step_ips)

lemma run_schedule_grows: "whitelist (snd r) \<subseteq> whitelist (snd (run_schedule sch r))"
proof (induction sch arbitrary: r)
  case Nil
  show ?case by simp
next
  case (Cons i sch)
  have "whitelist (snd r) \<subseteq> whitelist (snd (sched_step i r))" by (rule sched_step_grows)
  also have "\<dots> \<subseteq> whitelist (snd (run_schedule sch (sched_step i r)))" by (rule Cons.IH)
  finally show ?case by simp
qed

lemma all_done_pool:
  "list_all (\<lambda>steps. steps = []) pool \<Longrightarrow> pool_ranges pool = {} \<and> pool_ips pool = {}"
  by (induction pool) simp_all

lemma finished_pool: "finished r \<Longrightarrow> pool_ranges (fst r) = {} \<and> pool_ips (fst r) = {}"
  unfolding finished_def by (rule all_done_pool)



subsection \<open>Running the goroutines one after the other is one of the schedules\<close>

lemma run_schedule_append:
  "run_schedule (sch @ sch') r = run_schedule sch' (run_schedule sch r)"
  by (induction sch arbitrary: r) simp_all

lemma run_one_goroutine:
  "i < length pool \<Longrightarrow> pool ! i = steps \<Longrightarrow>
   run_schedule (replicate (length steps) i) (pool, st) =
     (pool[i := []], fold apply_action steps st)"
proof (induction steps arbitrary: pool st)
  case Nil
  then have "pool[i := []] = pool" by (metis list_update_id)
  then show ?case by simp
next
  case (Cons a rest)
  have "run_schedule (replicate (length (a # rest)) i) (pool, st) =
      run_schedule (replicate (length rest) i) (pool[i := rest], apply_action a st)"
    using Cons.prems by (simp add: sched_step_def)
  also have "\<dots> = ((pool[i := rest])[i := []], fold apply_action rest (apply_action a st))"
    using Cons.prems by (intro Cons.IH) simp_all
  finally show ?case by simp
qed

lemma sequential_schedule:
  "\<exists>sch. run_schedule sch (done @ map (host_steps lib) hosts, st) =
     (done @ map (\<lambda>h. []) hosts, check_hosts lib hosts st)"
proof (induction hosts arbitrary: "done" st)
  case Nil
  have "run_schedule [] (done @ map (host_steps lib) [], st) =
      (done @ map (\<lambda>h. []) [], check_hosts lib [] st)"
    by simp
  then show ?case by blast
next
  case (Cons h hosts)
  let ?pool = "done @ map (host_steps lib) (h # hosts)"
  let ?i = "length done"
  have "run_schedule (replicate (length (host_steps lib h)) ?i) (?pool, st) =
      (?pool[?i := []], fold apply_action (host_steps lib h) st)"
    by (intro run_one_goroutine) simp_all
  then have first: "run_schedule (replicate (length (host_steps lib h)) ?i) (?pool, st) =
      ((done @ [[]]) @ map (host_steps lib) hosts, checkHostIPs lib h st)"
    by (simp add: checkHostIPs_steps list_update_append)
  from Cons.IH [of "done @ [[]]" "checkHostIPs lib h st"] obtain sch where
    rest: "run_schedule sch ((done @ [[]]) @ map (host_steps lib) hosts, checkHostIPs lib h st) =
      ((done @ [[]]) @ map (\<lambda>h. []) hosts, check_hosts lib hosts (checkHostIPs lib h st))"
    by blast
  have "run_schedule (replicate (length (host_steps lib h)) ?i @ sch) (?pool, st) =
      (done @ map (\<lambda>h. []) (h # hosts), check_hosts lib (h # hosts) st)"
    by (simp only: run_schedule_append first rest) simp
  then show ?case by blast
qed

lemma checkIPs_is_a_schedule:
  "\<exists>sch. finished (run_schedule sch (refresh_start lib cfg_wl st))
     \<and> snd (run_schedule sch (refresh_start lib cfg_wl st)) = checkIPs lib cfg_wl st"
proof -
  from sequential_schedule [of "[]" lib cfg_wl "st\<lparr>ipRanges := []\<rparr>"] obtain sch where
    "run_schedule sch (refresh_start lib cfg_wl st) =
       (map (\<lambda>h. []) cfg_wl, checkIPs lib cfg_wl st)"
    by (auto simp add: refresh_start_def checkIPs_def)
  then have "finished (run_schedule sch (refresh_start lib cfg_wl st))
     \<and> snd (run_schedule sch (refresh_start lib cfg_wl st)) = checkIPs lib cfg_wl st"
    by (simp add: finished_def list_all_iff)
  then show ?thesis by blast
qed

subsection \<open>A refresh observed half-way\<close>

lemma two_ranges_eval:
  "wl_two = \<lparr>whitelist = {}, ipRanges = [\<lparr>net_IP = [10, 0, 0, 0], net_Mask = [255, 0, 0, 0]\<rparr>,
     \<lparr>net_IP = [192, 168, 0, 0], net_Mask = [255, 255, 0, 0]\<rparr>]\<rparr>"
  "host_steps ipv4_lib ''10.0.0.0/8'' =
     [AppendRange \<lparr>net_IP = [10, 0, 0, 0], net_Mask = [255, 0, 0, 0]\<rparr>]"
  "host_steps ipv4_lib ''192.168.0.0/16'' =
     [AppendRange \<lparr>net_IP = [192, 168, 0, 0], net_Mask = [255, 255, 0, 0]\<rparr>]"
  by (simp_all add: wl_two_def two_ranges_def checkIPs_def checkHostIPs_def host_steps_def
      wl_empty_def ipv4_eval)

text \<open>
  Claim C6, as stated, fails. Two ranges are configured and an earlier refresh has built
  the range list from them. During the next refresh, once the range list has been emptied
  and only the second goroutine has appended, a reader finds the second range alone: what
  it observes is neither the list before the refresh nor the list after it, and the check
  refuses \<^verbatim>\<open>10.1.2.3\<close>, which it accepts before and after.
\<close>

theorem refresh_not_atomic_counterexample:
  "ipRanges wl_two = [\<lparr>net_IP = [10, 0, 0, 0], net_Mask = [255, 0, 0, 0]\<rparr>,
                      \<lparr>net_IP = [192, 168, 0, 0], net_Mask = [255, 255, 0, 0]\<rparr>]
   \<and> checkIPs ipv4_lib two_ranges wl_two = wl_two
   \<and> ipRanges wl_mid = [\<lparr>net_IP = [192, 168, 0, 0], net_Mask = [255, 255, 0, 0]\<rparr>]
   \<and> wl_mid \<noteq> wl_two
   \<and> wl_mid \<noteq> checkIPs ipv4_lib two_ranges wl_two
   \<and> whitelist_check ipv4_lib two_ranges wl_two
        \<lparr>addr_IP = [10, 1, 2, 3], addr_Zone = ''''\<rparr> ''10.1.2.3''
   \<and> \<not> whitelist_check ipv4_lib two_ranges wl_mid
        \<lparr>addr_IP = [10, 1, 2, 3], addr_Zone = ''''\<rparr> ''10.1.2.3''"
proof -
  have post: "checkIPs ipv4_lib two_ranges wl_two = wl_two"
    by (simp add: two_ranges_eval(1)) (simp add: two_ranges_def checkIPs_def checkHostIPs_def
        ipv4_eval)
  have mid: "wl_mid = \<lparr>whitelist = {},
      ipRanges = [\<lparr>net_IP = [192, 168, 0, 0], net_Mask = [255, 255, 0, 0]\<rparr>]\<rparr>"
    by (simp add: wl_mid_def refresh_start_def sched_step_def two_ranges_def two_ranges_eval)
  have pre: "whitelist_check ipv4_lib two_ranges wl_two
        \<lparr>addr_IP = [10, 1, 2, 3], addr_Zone = ''''\<rparr> ''10.1.2.3''"
    by (simp add: two_ranges_eval(1) whitelist_check_def two_ranges_def ipv4_eval)
  have during: "\<not> whitelist_check ipv4_lib two_ranges wl_mid
        \<lparr>addr_IP = [10, 1, 2, 3], addr_Zone = ''''\<rparr> ''10.1.2.3''"
    by (simp add: mid whitelist_check_def two_ranges_def ipv4_eval)
  have ne: "wl_mid \<noteq> wl_two"
    by (simp add: mid two_ranges_eval(1))
  have pre_ranges: "ipRanges wl_two = [\<lparr>net_IP = [10, 0, 0, 0], net_Mask = [255, 0, 0, 0]\<rparr>,
                      \<lparr>net_IP = [192, 168, 0, 0], net_Mask = [255, 255, 0, 0]\<rparr>]"
    by (simp add: two_ranges_eval(1))
  have mid_ranges: "ipRanges wl_mid = [\<lparr>net_IP = [192, 168, 0, 0], net_Mask = [255, 255, 0, 0]\<rparr>]"
    by (simp add: mid)
  have ne': "wl_mid \<noteq> checkIPs ipv4_lib two_ranges wl_two"
    unfolding post by (rule ne)
  from pre_ranges post mid_ranges ne ne' pre during show ?thesis
    by (intro conjI)
qed

text \<open>
  Claim C6, amended. Each lock-protected step of a refresh is atomic, the refresh as a
  whole is not. At every point of every interleaving of the goroutines, the IP set a
  reader observes contains the set before the refresh and is contained in the set after
  it, and every range it observes is a range of the list after it; once all goroutines
  have finished, the IP set and the ranges are those after the refresh (the ranges in the
  order of arrival). So a check that reads the IP set at one point of the refresh and the
  range list at another accepts only what the check after the refresh accepts. The state
  after the refresh is \<^verbatim>\<open>checkIPs\<close> with the goroutines run in the order of the
  configuration, which is one of the interleavings.
\<close>

theorem refresh_in_between:
  "whitelist st \<subseteq> whitelist (snd (run_schedule sch (refresh_start lib cfg_wl st)))
   \<and> whitelist (snd (run_schedule sch (refresh_start lib cfg_wl st)))
        \<subseteq> whitelist (checkIPs lib cfg_wl st)
   \<and> set (ipRanges (snd (run_schedule sch (refresh_start lib cfg_wl st))))
        \<subseteq> set (ipRanges (checkIPs lib cfg_wl st))
   \<and> (finished (run_schedule sch (refresh_start lib cfg_wl st)) \<longrightarrow>
        whitelist (snd (run_schedule sch (refresh_start lib cfg_wl st)))
          = whitelist (checkIPs lib cfg_wl st)
        \<and> set (ipRanges (snd (run_schedule sch (refresh_start lib cfg_wl st))))
          = set (ipRanges (checkIPs lib cfg_wl st)))
   \<and> (IPAddr_String lib ip \<in> whitelist (snd (run_schedule sch (refresh_start lib cfg_wl st)))
        \<or> isIPInRange lib (ipRanges (snd (run_schedule sch' (refresh_start lib cfg_wl st))))
             (addr_IP ip)
        \<or> host_listed lib host cfg_wl \<longrightarrow>
        whitelist_check lib cfg_wl (checkIPs lib cfg_wl st) ip host)
   \<and> (\<exists>sch0. finished (run_schedule sch0 (refresh_start lib cfg_wl st))
         \<and> snd (run_schedule sch0 (refresh_start lib cfg_wl st)) = checkIPs lib cfg_wl st)"
proof -
  let ?start = "refresh_start lib cfg_wl st"
  let ?post = "checkIPs lib cfg_wl st"
  have start: "whitelist (snd ?start) = whitelist st" "ipRanges (snd ?start) = []"
    "fst ?start = map (host_steps lib) cfg_wl"
    by (simp_all add: refresh_start_def)
  have R: "set (ipRanges (snd (run_schedule s ?start))) \<union> pool_ranges (fst (run_schedule s ?start))
      = set (ipRanges ?post)" for s
    by (simp add: run_schedule_ranges start checkIPs_ranges)
  have W: "whitelist (snd (run_schedule s ?start)) \<union> pool_ips (fst (run_schedule s ?start))
      = whitelist ?post" for s
    by (simp add: run_schedule_ips start checkIPs_ips)
  have 1: "whitelist st \<subseteq> whitelist (snd (run_schedule sch ?start))"
    using run_schedule_grows [of ?start sch] by (simp add: start)
  have 2: "whitelist (snd (run_schedule s ?start)) \<subseteq> whitelist ?post" for s
    using W [of s] by blast
  have 3: "set (ipRanges (snd (run_schedule s ?start))) \<subseteq> set (ipRanges ?post)" for s
    using R [of s] by blast
  have 4: "finished (run_schedule sch ?start) \<longrightarrow>
        whitelist (snd (run_schedule sch ?start)) = whitelist ?post
        \<and> set (ipRanges (snd (run_schedule sch ?start))) = set (ipRanges ?post)"
    using R [of sch] W [of sch] finished_pool [of "run_schedule sch ?start"] by auto
  have 5: "IPAddr_String lib ip \<in> whitelist (snd (run_schedule sch ?start))
        \<or> isIPInRange lib (ipRanges (snd (run_schedule sch' ?start))) (addr_IP ip)
        \<or> host_listed lib host cfg_wl \<longrightarrow>
        whitelist_check lib cfg_wl ?post ip host"
    using 2 [of sch] 3 [of sch']
    by (auto simp add: whitelist_check_def Let_def isIPInRange_iff)
  have 6: "\<exists>sch0. finished (run_schedule sch0 ?start)
         \<and> snd (run_schedule sch0 ?start) = ?post"
    by (rule checkIPs_is_a_schedule)
  from 1 2 [of sch] 3 [of sch] 4 5 6 show ?thesis by blast
qed

text \<open>
  The two goroutines in reverse order: the finished refresh holds both ranges, the second
  first; half-way it holds one of them.
\<close>

theorem refresh_in_between_witness:
  "finished (run_schedule [1, 0] (refresh_start ipv4_lib two_ranges wl_two))
   \<and> set (ipRanges (snd (run_schedule [1, 0] (refresh_start ipv4_lib two_ranges wl_two))))
       = set (ipRanges wl_two)
   \<and> ipRanges (snd (run_schedule [1, 0] (refresh_start ipv4_lib two_ranges wl_two)))
       = rev (ipRanges wl_two)
   \<and> set (ipRanges wl_mid) \<subseteq> set (ipRanges wl_two)
   \<and> isIPInRange ipv4_lib (ipRanges wl_mid) [192, 168, 7, 7]
   \<and> whitelist_check ipv4_lib two_ranges wl_two
        \<lparr>addr_IP = [192, 168, 7, 7], addr_Zone = ''''\<rparr> ''192.168.7.7''"
proof -
  have run: "run_schedule [1, 0] (refresh_start ipv4_lib two_ranges wl_two) =
      ([[], []], \<lparr>whitelist = {}, ipRanges = [\<lparr>net_IP = [192, 168, 0, 0], net_Mask = [255, 255, 0, 0]\<rparr>,
        \<lparr>net_IP = [10, 0, 0, 0], net_Mask = [255, 0, 0, 0]\<rparr>]\<rparr>)"
    by (simp add: refresh_start_def sched_step_def two_ranges_def two_ranges_eval)
  have mid: "wl_mid = \<lparr>whitelist = {},
      ipRanges = [\<lparr>net_IP = [192, 168, 0, 0], net_Mask = [255, 255, 0, 0]\<rparr>]\<rparr>"
    by (simp add: wl_mid_def refresh_start_def sched_step_def two_ranges_def two_ranges_eval)
  have fin: "finished (run_schedule [1, 0] (refresh_start ipv4_lib two_ranges wl_two))"
    unfolding run by (simp add: finished_def)
  have post: "checkIPs ipv4_lib two_ranges wl_two = wl_two"
    by (simp add: two_ranges_eval(1)) (simp add: two_ranges_def checkIPs_def checkHostIPs_def
        ipv4_eval)
  note th = refresh_in_between [of wl_two "[1, 0]" ipv4_lib two_ranges]
  have a: "set (ipRanges (snd (run_schedule [1, 0] (refresh_start ipv4_lib two_ranges wl_two))))
       = set (ipRanges wl_two)"
    using th fin unfolding post by blast
  have b: "ipRanges (snd (run_schedule [1, 0] (refresh_start ipv4_lib two_ranges wl_two)))
       = rev (ipRanges wl_two)"
    unfolding run by (simp add: two_ranges_eval(1))
  note th1 = refresh_in_between [where st = wl_two and sch = "[1]" and sch' = "[1]"
      and lib = ipv4_lib and cfg_wl = two_ranges
      and ip = "\<lparr>addr_IP = [192, 168, 7, 7], addr_Zone = ''''\<rparr>" and host = "''192.168.7.7''"]
  have c: "set (ipRanges wl_mid) \<subseteq> set (ipRanges wl_two)"
    using th1 unfolding post wl_mid_def by blast
  have r: "isIPInRange ipv4_lib (ipRanges wl_mid) [192, 168, 7, 7]"
    by (simp add: mid ipv4_eval)
  have e: "whitelist_check ipv4_lib two_ranges wl_two
        \<lparr>addr_IP = [192, 168, 7, 7], addr_Zone = ''''\<rparr> ''192.168.7.7''"
    using th1 r unfolding post wl_mid_def by simp
  from fin a b c r e show ?thesis by blast
qed

section \<open>Properties of the closed flag\<close>

subsection \<open>A closed tracker stays closed\<close>











section \<open>Properties of a tracked connection: what the record shows\<close>

lemma run_traffic_ops_eval:
  "run traffic_ops sc_tracked = sc_two\<lparr>trackers :=
      [\<lparr>tracker_id = 1, country = ''Unknown'', bytesIn = 2000, bytesOut = 240,
        startTime = utc 1000000000, closed = False\<rparr>,
       \<lparr>tracker_id = 2, country = ''Unknown'', bytesIn = 0, bytesOut = 77,
        startTime = utc 8640000000000000, closed = False\<rparr>]\<rparr>"
  by (simp add: traffic_ops_def sc_two_eval sc_tracked_eval trackedConn_Read_def
      trackedConn_Write_def AddBytesIn_def AddBytesOut_def deref_def TrackConnection_def
      track_later_def ok_at_def locate_def Let_def updateServerStats_def updateGeoStats_def)

lemma ops_traffic_ops:
  "ops_in 0 traffic_ops = 2000" "ops_out 0 traffic_ops = 240"
  by (simp_all add: traffic_ops_def)

lemma TrackConnection_sc_new:
  "TrackConnection track_ok ''203.0.113.7'' ''example.com:443'' sc_new = (Some 0, sc_tracked)"
proof -
  have ok: "te_insert_ok track_ok" by (simp add: track_ok_def)
  have "trackers sc_new = []"
    by (simp add: sc_new_def NewStatsCollector_def initServerStats_def Let_def)
  then have "fst (TrackConnection track_ok ''203.0.113.7'' ''example.com:443'' sc_new) = Some 0"
    by (simp add: TrackConnection_ok(1) [OF ok])
  then show ?thesis by (simp add: sc_tracked_def prod_eq_iff)
qed

text \<open>
  Claim C2, as stated, fails. A connection is tracked, 2000 bytes are read and 240 written
  on it, and it is closed. When the store fails the \<^verbatim>\<open>UPDATE\<close> of the close, the error
  is logged and the record keeps 0 bytes and no duration. When the retention sweep runs
  while the connection is open and the connection is older than the retention, the sweep
  deletes its record, and the \<^verbatim>\<open>UPDATE\<close> of the close finds no record.
\<close>

theorem streamed_bytes_counterexample:
  "TrackConnection track_ok ''203.0.113.7'' ''example.com:443'' sc_new = (Some 0, sc_tracked)
   \<and> ops_in 0 traffic_ops = 2000
   \<and> ops_out 0 traffic_ops = 240
   \<and> is_closed (run traffic_ops sc_tracked) 0 = False
   \<and> ce_update_ok close_late_failed = False
   \<and> map ID (connections (db (Close close_late_failed 0 (run traffic_ops sc_tracked)))) = [1, 2]
   \<and> map BytesIn (connections (db (Close close_late_failed 0 (run traffic_ops sc_tracked)))) =
       [0, 0]
   \<and> map BytesOut (connections (db (Close close_late_failed 0 (run traffic_ops sc_tracked)))) =
       [0, 0]
   \<and> map Duration (connections (db (Close close_late_failed 0 (run traffic_ops sc_tracked)))) =
       [None, None]
   \<and> is_closed (run (traffic_ops @ [OpCleanup sweep_ok []]) sc_tracked) 0 = False
   \<and> ce_update_ok close_late
   \<and> map ID (connections (db (Close close_late 0
        (run (traffic_ops @ [OpCleanup sweep_ok []]) sc_tracked)))) = [2]"
proof -
  have r: "run (traffic_ops @ [OpCleanup sweep_ok []]) sc_tracked =
      cleanupLoop sweep_ok [] (run traffic_ops sc_tracked)"
    by (simp add: traffic_ops_def)
  have 1: "is_closed (run traffic_ops sc_tracked) 0 = False"
    unfolding run_traffic_ops_eval
    by (simp add: is_closed_def deref_def sc_two_eval sc_tracked_eval)
  have 2: "ce_update_ok close_late_failed = False"
    "map ID (connections (db (Close close_late_failed 0 (run traffic_ops sc_tracked)))) = [1, 2]"
    "map BytesIn (connections (db (Close close_late_failed 0 (run traffic_ops sc_tracked)))) =
       [0, 0]"
    "map BytesOut (connections (db (Close close_late_failed 0 (run traffic_ops sc_tracked)))) =
       [0, 0]"
    "map Duration (connections (db (Close close_late_failed 0 (run traffic_ops sc_tracked)))) =
       [None, None]"
    unfolding run_traffic_ops_eval
    by (simp_all add: Close_def deref_def sc_two_eval sc_tracked_eval Let_def
        close_late_failed_def close_late_def)
  have 3: "is_closed (run (traffic_ops @ [OpCleanup sweep_ok []]) sc_tracked) 0 = False"
    unfolding r run_traffic_ops_eval
    by (simp add: is_closed_def) (simp add: deref_def)
  have 4: "map ID (connections (db (Close close_late 0
        (run (traffic_ops @ [OpCleanup sweep_ok []]) sc_tracked)))) = [2]"
    unfolding r run_traffic_ops_eval
    by (simp add: Close_def deref_def sc_two_eval sc_tracked_eval Let_def
        close_late_def cleanupLoop_def cleanupExpiredConnections_def sweep_ok_def
        AddDate_utc_def utc_def text_before_def wall_def offset_text_before_def
        offset_minutes_def update_connection_def)
  have 5: "ce_update_ok close_late" by (simp add: close_late_def)
  from TrackConnection_sc_new ops_traffic_ops 1 2 3 4 5 show ?thesis by blast
qed

text \<open>
  Claim C2, amended. A connection is tracked; any operations of the collector follow,
  among them the reads and writes on the connection, which return \<open>X\<close> and \<open>Y\<close> bytes in
  total; the connection is not closed by them, and then it is closed with an
  \<^verbatim>\<open>UPDATE\<close> that executes. Then the close sets, in every record with the id of the
  connection, \<^verbatim>\<open>bytes_in\<close> to \<open>X\<close> and \<^verbatim>\<open>bytes_out\<close> to \<open>Y\<close> (as \<^verbatim>\<open>int64\<close>: exactly,
  below \<open>2 ^ 63\<close>), \<^verbatim>\<open>disconnected_at\<close> to the time of the close, and the duration to the
  seconds between the creation and the close; it changes no other record and adds or
  removes none. The record is there to be updated when retention is disabled. The
  duration is the whole seconds elapsed, or one more, and exactly the whole seconds below
  \<open>2 ^ 24\<close> seconds.
\<close>

theorem streamed_bytes_persisted:
  assumes "TrackConnection tenv clientIP targetAddr sc = (Some ref, sc1)"
    and "0 \<le> conn_seq (db sc)"
    and "conn_seq (db sc) + 1 < 2 ^ 63"
    and "\<not> is_closed (run ops sc1) ref"
    and "ce_update_ok cenv"
  shows "connections (db (Close cenv ref (run ops sc1))) =
           map (\<lambda>row. if ID row = conn_seq (db sc) + 1
                  then row\<lparr>BytesIn := sint (word_of_int (ops_in ref ops) :: 64 word),
                           BytesOut := sint (word_of_int (ops_out ref ops) :: 64 word),
                           DisconnectedAt := Some (ce_now cenv),
                           Duration := Some (Seconds_int64 (ce_rounds_up cenv)
                                              (ce_since cenv - instant (te_now tenv)))\<rparr>
                  else row)
             (connections (db (run ops sc1)))
       \<and> (\<forall>row \<in> set (connections (db (Close cenv ref (run ops sc1)))).
            ID row = conn_seq (db sc) + 1 \<longrightarrow>
              (ops_in ref ops < 2 ^ 63 \<longrightarrow> BytesIn row = ops_in ref ops)
            \<and> (ops_out ref ops < 2 ^ 63 \<longrightarrow> BytesOut row = ops_out ref ops)
            \<and> DisconnectedAt row = Some (ce_now cenv)
            \<and> Duration row = Some (Seconds_int64 (ce_rounds_up cenv)
                                     (ce_since cenv - instant (te_now tenv))))
       \<and> map ID (connections (db (Close cenv ref (run ops sc1)))) =
           map ID (connections (db (run ops sc1)))
       \<and> (retentionDays sc \<le> 0 \<longrightarrow>
            conn_seq (db sc) + 1 \<in> ID ` set (connections (db (Close cenv ref (run ops sc1)))))
       \<and> (0 \<le> ce_since cenv - instant (te_now tenv) \<longrightarrow>
            (ce_since cenv - instant (te_now tenv)) div 1000000000
              \<le> Seconds_int64 (ce_rounds_up cenv) (ce_since cenv - instant (te_now tenv))
          \<and> Seconds_int64 (ce_rounds_up cenv) (ce_since cenv - instant (te_now tenv))
              \<le> (ce_since cenv - instant (te_now tenv)) div 1000000000 + 1
          \<and> (ce_since cenv - instant (te_now tenv) < 16777216000000000 \<longrightarrow>
               Seconds_int64 (ce_rounds_up cenv) (ce_since cenv - instant (te_now tenv))
                 = (ce_since cenv - instant (te_now tenv)) div 1000000000))"
proof -
  let ?S = "Seconds_int64 (ce_rounds_up cenv) (ce_since cenv - instant (te_now tenv))"
  let ?id = "conn_seq (db sc) + 1"
  let ?upd = "\<lambda>row. if ID row = ?id
                  then row\<lparr>BytesIn := sint (word_of_int (ops_in ref ops) :: 64 word),
                           BytesOut := sint (word_of_int (ops_out ref ops) :: 64 word),
                           DisconnectedAt := Some (ce_now cenv), Duration := Some ?S\<rparr>
                  else row"
  have ok: "te_insert_ok tenv" using assms(1) by (rule TrackConnection_Some)
  have ref: "ref = length (trackers sc)"
    using TrackConnection_ok(1) [OF ok, of clientIP targetAddr sc] assms(1) by simp
  have sc1: "sc1 = snd (TrackConnection tenv clientIP targetAddr sc)"
    using assms(1) by simp
  have d1: "deref sc1 ref = Some (new_tracker tenv sc)"
    unfolding sc1 ref by (simp add: deref_def TrackConnection_ok(2) [OF ok])
  from run_tracker [OF d1, of ops] obtain c where
    d: "deref (run ops sc1) ref =
         Some ((new_tracker tenv sc)\<lparr>bytesIn := bytesIn (new_tracker tenv sc) + word_of_int (ops_in ref ops),
            bytesOut := bytesOut (new_tracker tenv sc) + word_of_int (ops_out ref ops),
            closed := c\<rparr>)"
    by blast
  let ?ct = "(new_tracker tenv sc)\<lparr>bytesIn := bytesIn (new_tracker tenv sc) + word_of_int (ops_in ref ops),
            bytesOut := bytesOut (new_tracker tenv sc) + word_of_int (ops_out ref ops),
            closed := c\<rparr>"
  have o: "\<not> closed ?ct" using assms(4) d by (simp add: is_closed_def)
  have "0 \<le> ?id" using assms(2) by simp
  then have uid: "uint (word_of_int ?id :: 64 word) = ?id"
    using assms(3) by (intro uint_conn_id)
  have f: "update_connection (uint (tracker_id ?ct)) (sint (bytesIn ?ct)) (sint (bytesOut ?ct))
         (ce_now cenv) (Seconds_int64 (ce_rounds_up cenv) (ce_since cenv - instant (startTime ?ct)))
       = ?upd"
    using uid by (simp add: fun_eq_iff update_connection_def new_tracker_def)
  have 1: "connections (db (Close cenv ref (run ops sc1))) = map ?upd (connections (db (run ops sc1)))"
    using Close_open_connections [OF d o, of cenv] assms(5) unfolding f by simp
  have 2: "\<forall>row \<in> set (connections (db (Close cenv ref (run ops sc1)))).
            ID row = ?id \<longrightarrow>
              (ops_in ref ops < 2 ^ 63 \<longrightarrow> BytesIn row = ops_in ref ops)
            \<and> (ops_out ref ops < 2 ^ 63 \<longrightarrow> BytesOut row = ops_out ref ops)
            \<and> DisconnectedAt row = Some (ce_now cenv)
            \<and> Duration row = Some ?S"
    unfolding 1 using ops_nonneg [of ref ops] by (auto simp add: sint_total)
  have 3: "map ID (connections (db (Close cenv ref (run ops sc1)))) =
           map ID (connections (db (run ops sc1)))"
    by (rule ids_Close)
  have 4: "conn_seq (db sc) + 1 \<in> ID ` set (connections (db (Close cenv ref (run ops sc1))))"
    if rd: "retentionDays sc \<le> 0"
  proof -
    have "retentionDays sc1 \<le> 0" unfolding sc1 using rd by (simp add: TrackConnection_ok(7) [OF ok])
    from ids_run [OF this, of ops] obtain rest where
      "map ID (connections (db (run ops sc1))) = map ID (connections (db sc1)) @ rest" by blast
    then have "map ID (connections (db (Close cenv ref (run ops sc1)))) =
        map ID (connections (db sc)) @ ?id # rest"
      unfolding sc1 by (simp add: ids_Close TrackConnection_ok(3) [OF ok] new_row_def)
    then have "?id \<in> set (map ID (connections (db (Close cenv ref (run ops sc1)))))"
      by simp
    then show ?thesis by simp
  qed
  have 5: "0 \<le> ce_since cenv - instant (te_now tenv) \<longrightarrow>
            (ce_since cenv - instant (te_now tenv)) div 1000000000 \<le> ?S
          \<and> ?S \<le> (ce_since cenv - instant (te_now tenv)) div 1000000000 + 1
          \<and> (ce_since cenv - instant (te_now tenv) < 16777216000000000 \<longrightarrow>
               ?S = (ce_since cenv - instant (te_now tenv)) div 1000000000)"
    by (auto simp add: Seconds_int64_def Let_def)
  from 1 2 3 4 5 show ?thesis by blast
qed

text \<open>
  The connection of the small run, with a second connection tracked and written to in
  between, closed half a second after day 120: its record shows 2000 and 240 bytes and
  10367999 seconds, and the record of the second connection is as it was.
\<close>

theorem streamed_bytes_persisted_witness:
  "TrackConnection track_ok ''203.0.113.7'' ''example.com:443'' sc_new = (Some 0, sc_tracked)
   \<and> conn_seq (db sc_new) = 0
   \<and> is_closed (run traffic_ops sc_tracked) 0 = False
   \<and> ce_update_ok close_late
   \<and> map (\<lambda>row. (ID row, BytesIn row, BytesOut row, DisconnectedAt row, Duration row))
        (connections (db (Close close_late 0 (run traffic_ops sc_tracked)))) =
        [(1, 2000, 240, Some (utc 10368000500000100), Some 10367999), (2, 0, 0, None, None)]"
proof -
  have seq: "conn_seq (db sc_new) = 0"
    by (simp add: sc_new_def NewStatsCollector_def initServerStats_def Let_def fresh_db_def ok_at_def)
  have h2: "0 \<le> conn_seq (db sc_new)" and h3: "conn_seq (db sc_new) + 1 < 2 ^ 63"
    by (simp_all add: seq)
  have o: "is_closed (run traffic_ops sc_tracked) 0 = False"
    unfolding run_traffic_ops_eval
    by (simp add: is_closed_def deref_def sc_two_eval sc_tracked_eval)
  then have h4: "\<not> is_closed (run traffic_ops sc_tracked) 0" by simp
  have h5: "ce_update_ok close_late" by (simp add: close_late_def)
  note th = streamed_bytes_persisted [OF TrackConnection_sc_new h2 h3 h4 h5, THEN conjunct1]
  have rows: "connections (db (run traffic_ops sc_tracked)) = connections (db sc_two)"
    unfolding run_traffic_ops_eval by simp
  have "map (\<lambda>row. (ID row, BytesIn row, BytesOut row, DisconnectedAt row, Duration row))
        (map (\<lambda>row. if ID row = conn_seq (db sc_new) + 1
                  then row\<lparr>BytesIn := sint (word_of_int (ops_in 0 traffic_ops) :: 64 word),
                           BytesOut := sint (word_of_int (ops_out 0 traffic_ops) :: 64 word),
                           DisconnectedAt := Some (ce_now close_late),
                           Duration := Some (Seconds_int64 (ce_rounds_up close_late)
                                              (ce_since close_late - instant (te_now track_ok)))\<rparr>
                  else row)
             (connections (db (run traffic_ops sc_tracked)))) =
        [(1, 2000, 240, Some (utc 10368000500000100), Some 10367999), (2, 0, 0, None, None)]"
    unfolding rows ops_traffic_ops seq
    by (simp add: sc_two_eval sc_tracked_eval close_late_def track_ok_def utc_def
        Seconds_int64_def)
  then have "map (\<lambda>row. (ID row, BytesIn row, BytesOut row, DisconnectedAt row, Duration row))
        (connections (db (Close close_late 0 (run traffic_ops sc_tracked)))) =
        [(1, 2000, 240, Some (utc 10368000500000100), Some 10367999), (2, 0, 0, None, None)]"
    by (simp only: th)
  with TrackConnection_sc_new seq o h5 show ?thesis by blast
qed

section \<open>Properties of the retention sweep\<close>

lemma text_before_same_offset:
  "zone_offset a = zone_offset b \<Longrightarrow> text_before a b = (instant a < instant b)"
  by (auto simp add: text_before_def wall_def offset_text_before_def Let_def)

text \<open>
  Across offsets the texts do not compare as the instants do: the record written at 10:30
  UTC is before the cutoff of 10:00 UTC that is written as 12:00 with its offset.
\<close>

lemma text_before_across_offsets:
  "instant cutoff_east < instant written_in_utc \<and> text_before written_in_utc cutoff_east"
  by (simp add: cutoff_east_def written_in_utc_def text_before_def wall_def)

lemma sc_utc_eval:
  "retentionDays sc_utc = 90"
  "map ConnectedAt (connections (db sc_utc)) = [written_in_utc]"
proof -
  have ok: "te_insert_ok track_utc" by (simp add: track_utc_def)
  show "retentionDays sc_utc = 90"
    by (simp add: sc_utc_def TrackConnection_ok(7) [OF ok] sc_new_def NewStatsCollector_fields)
  have "te_now track_utc = written_in_utc" by (simp add: track_utc_def)
  then show "map ConnectedAt (connections (db sc_utc)) = [written_in_utc]"
    unfolding sc_utc_def TrackConnection_ok(3) [OF ok]
    by (simp add: sc_new_def NewStatsCollector_fields fresh_db_def new_row_def)
qed

text \<open>
  Claim C8, as stated, fails. With 90 days of retention and records of the first day and of
  day 100, the sweep of day 120 whose \<^verbatim>\<open>DELETE\<close> the store fails logs the error and
  leaves the record of the first day, which is older than the cutoff of day 30. And the
  sweep after a change of zone deletes the record written at 10:30 UTC although its cutoff
  is 10:00 UTC of the same day.
\<close>

theorem sweep_counterexample:
  "retentionDays sc_two = 90
   \<and> map ID (connections (db sc_two)) = [1, 2]
   \<and> map ConnectedAt (connections (db sc_two)) = [utc 1000000000, utc 8640000000000000]
   \<and> sw_delete_ok sweep_failed = False
   \<and> instant (sw_AddDate sweep_failed (sw_now sweep_failed) 0 0 (- retentionDays sc_two)) =
       2592000000000000
   \<and> map ID (connections (db (cleanupLoop sweep_failed [] sc_two))) = [1, 2]
   \<and> retentionDays sc_utc = 90
   \<and> map ConnectedAt (connections (db sc_utc)) = [written_in_utc]
   \<and> sw_AddDate sweep_east (sw_now sweep_east) 0 0 (- retentionDays sc_utc) = cutoff_east
   \<and> instant cutoff_east < instant written_in_utc
   \<and> sw_delete_ok sweep_east
   \<and> connections (db (cleanupLoop sweep_east [] sc_utc)) = []"
proof -
  have 1: "retentionDays sc_two = 90" by (simp add: sc_two_eval sc_tracked_eval)
  have 2: "map ID (connections (db sc_two)) = [1, 2]"
    "map ConnectedAt (connections (db sc_two)) = [utc 1000000000, utc 8640000000000000]"
    "sw_delete_ok sweep_failed = False"
    by (simp_all add: sc_two_eval sc_tracked_eval sweep_failed_def sweep_ok_def)
  have 3: "instant (sw_AddDate sweep_failed (sw_now sweep_failed) 0 0 (- retentionDays sc_two)) =
       2592000000000000"
    unfolding 1 by (simp add: sweep_failed_def sweep_ok_def AddDate_utc_def utc_def)
  have 4: "map ID (connections (db (cleanupLoop sweep_failed [] sc_two))) = [1, 2]"
    by (simp add: cleanupLoop_def 1 cleanupExpiredConnections_def sweep_failed_def sweep_ok_def)
       (simp add: sc_two_eval sc_tracked_eval)
  have 5: "sw_AddDate sweep_east (sw_now sweep_east) 0 0 (- retentionDays sc_utc) = cutoff_east"
    unfolding sc_utc_eval by (simp add: sweep_east_def AddDate_utc_def cutoff_east_def)
  have 6: "sw_delete_ok sweep_east" by (simp add: sweep_east_def)
  have "map ConnectedAt (connections (db (cleanupLoop sweep_east [] sc_utc))) =
      filter (\<lambda>t. \<not> text_before t cutoff_east) (map ConnectedAt (connections (db sc_utc)))"
    by (simp add: cleanupLoop_def sc_utc_eval(1) cleanupExpiredConnections_def 6 5 [unfolded sc_utc_eval(1)]
        filter_map o_def)
  then have 7: "connections (db (cleanupLoop sweep_east [] sc_utc)) = []"
    unfolding sc_utc_eval using text_before_across_offsets by simp
  from 1 2 3 4 5 6 7 sc_utc_eval text_before_across_offsets show ?thesis by blast
qed

text \<open>
  Claim C8, amended. The cutoff of a sweep is \<^verbatim>\<open>now.AddDate(0, 0, -retentionDays)\<close>.
  When its \<^verbatim>\<open>DELETE\<close> executes, the sweep leaves exactly the records whose
  \<^verbatim>\<open>connected_at\<close>, as the text in the store, is not before the text of the cutoff, each
  unchanged and in order. When the records carry the offset of the cutoff, these are
  exactly the records whose instant is not before the cutoff; in a zone without daylight
  saving whose offset all records carry, they are the records of the last
  \<open>retentionDays\<close> times 24 hours. A failed \<^verbatim>\<open>DELETE\<close> changes nothing. In every case
  the server row, the country rows and everything else in the collector stay as they
  were. With retention enabled, the sweep at the start of \<^verbatim>\<open>cleanupLoop\<close> is this
  sweep.
\<close>

theorem sweep_deletes_expired_only:
  "(sw_delete_ok env \<longrightarrow>
      connections (db (cleanupExpiredConnections env sc)) =
        filter (\<lambda>row. \<not> text_before (ConnectedAt row)
                         (sw_AddDate env (sw_now env) 0 0 (- retentionDays sc)))
          (connections (db sc))
      \<and> ((\<forall>row \<in> set (connections (db sc)).
             zone_offset (ConnectedAt row) =
               zone_offset (sw_AddDate env (sw_now env) 0 0 (- retentionDays sc))) \<longrightarrow>
           connections (db (cleanupExpiredConnections env sc)) =
             filter (\<lambda>row. instant (sw_AddDate env (sw_now env) 0 0 (- retentionDays sc))
                             \<le> instant (ConnectedAt row))
               (connections (db sc)))
      \<and> (sw_AddDate env = AddDate_utc
           \<and> (\<forall>row \<in> set (connections (db sc)).
                 zone_offset (ConnectedAt row) = zone_offset (sw_now env)) \<longrightarrow>
           connections (db (cleanupExpiredConnections env sc)) =
             filter (\<lambda>row. instant (sw_now env) - retentionDays sc * 86400000000000
                             \<le> instant (ConnectedAt row))
               (connections (db sc))))
   \<and> (\<not> sw_delete_ok env \<longrightarrow> cleanupExpiredConnections env sc = sc)
   \<and> server_stats (db (cleanupExpiredConnections env sc)) = server_stats (db sc)
   \<and> geo_stats (db (cleanupExpiredConnections env sc)) = geo_stats (db sc)
   \<and> cleanupExpiredConnections env sc =
       sc\<lparr>db := (db sc)\<lparr>connections := connections (db (cleanupExpiredConnections env sc))\<rparr>\<rparr>
   \<and> (0 < retentionDays sc \<longrightarrow> cleanupLoop env [] sc = cleanupExpiredConnections env sc)"
proof -
  let ?cutoff = "sw_AddDate env (sw_now env) 0 0 (- retentionDays sc)"
  have 1: "connections (db (cleanupExpiredConnections env sc)) =
        filter (\<lambda>row. \<not> text_before (ConnectedAt row) ?cutoff) (connections (db sc))"
    if "sw_delete_ok env"
    using that by (simp add: cleanupExpiredConnections_def Let_def)
  have 2: "connections (db (cleanupExpiredConnections env sc)) =
             filter (\<lambda>row. instant ?cutoff \<le> instant (ConnectedAt row)) (connections (db sc))"
    if "sw_delete_ok env"
      and "\<forall>row \<in> set (connections (db sc)). zone_offset (ConnectedAt row) = zone_offset ?cutoff"
    unfolding 1 [OF that(1)] using that(2)
    by (intro filter_cong) (auto simp add: text_before_same_offset)
  have 3: "connections (db (cleanupExpiredConnections env sc)) =
             filter (\<lambda>row. instant (sw_now env) - retentionDays sc * 86400000000000
                             \<le> instant (ConnectedAt row)) (connections (db sc))"
    if ok: "sw_delete_ok env" and utc: "sw_AddDate env = AddDate_utc"
      and same: "\<forall>row \<in> set (connections (db sc)). zone_offset (ConnectedAt row) = zone_offset (sw_now env)"
  proof -
    have c: "?cutoff = (sw_now env)\<lparr>instant := instant (sw_now env) - retentionDays sc * 86400000000000\<rparr>"
      by (simp add: utc AddDate_utc_def)
    have "\<forall>row \<in> set (connections (db sc)). zone_offset (ConnectedAt row) = zone_offset ?cutoff"
      using same by (simp add: c)
    from 2 [OF ok this] show ?thesis by (simp add: c)
  qed
  have 4: "\<not> sw_delete_ok env \<longrightarrow> cleanupExpiredConnections env sc = sc"
    by (simp add: cleanupExpiredConnections_def Let_def)
  have 5: "server_stats (db (cleanupExpiredConnections env sc)) = server_stats (db sc)"
    "geo_stats (db (cleanupExpiredConnections env sc)) = geo_stats (db sc)"
    "cleanupExpiredConnections env sc =
       sc\<lparr>db := (db sc)\<lparr>connections := connections (db (cleanupExpiredConnections env sc))\<rparr>\<rparr>"
    by (simp_all add: cleanupExpiredConnections_def Let_def)
  have 6: "0 < retentionDays sc \<longrightarrow> cleanupLoop env [] sc = cleanupExpiredConnections env sc"
    by (simp add: cleanupLoop_def)
  from 1 2 3 4 5 6 show ?thesis by blast
qed

text \<open>
  The sweep of day 120 in UTC with 90 days of retention deletes the record of the first
  day and keeps the record of day 100; the sweep whose \<^verbatim>\<open>DELETE\<close> fails keeps both.
\<close>

theorem sweep_deletes_expired_only_witness:
  "sw_delete_ok sweep_ok
   \<and> sw_AddDate sweep_ok = AddDate_utc
   \<and> retentionDays sc_two = 90
   \<and> map (\<lambda>row. (ID row, ConnectedAt row)) (connections (db sc_two)) =
       [(1, utc 1000000000), (2, utc 8640000000000000)]
   \<and> sw_now sweep_ok = utc 10368000000000000
   \<and> map ID (connections (db (cleanupLoop sweep_ok [] sc_two))) = [2]
   \<and> server_stats (db (cleanupLoop sweep_ok [] sc_two)) = server_stats (db sc_two)
   \<and> geo_stats (db (cleanupLoop sweep_ok [] sc_two)) = geo_stats (db sc_two)
   \<and> cleanupExpiredConnections sweep_failed sc_two = sc_two"
proof -
  have ok: "sw_delete_ok sweep_ok" by (simp add: sweep_ok_def)
  have lib: "sw_AddDate sweep_ok = AddDate_utc" by (simp add: sweep_ok_def)
  have now: "sw_now sweep_ok = utc 10368000000000000" by (simp add: sweep_ok_def)
  have nok: "\<not> sw_delete_ok sweep_failed" by (simp add: sweep_failed_def sweep_ok_def)
  have rd: "retentionDays sc_two = 90" by (simp add: sc_two_eval sc_tracked_eval)
  then have rd0: "0 < retentionDays sc_two" by simp
  have before: "map (\<lambda>row. (ID row, ConnectedAt row)) (connections (db sc_two)) =
       [(1, utc 1000000000), (2, utc 8640000000000000)]"
    by (simp add: sc_two_eval sc_tracked_eval)
  have same: "\<forall>row \<in> set (connections (db sc_two)).
      zone_offset (ConnectedAt row) = zone_offset (sw_now sweep_ok)"
    unfolding now by (simp add: sc_two_eval sc_tracked_eval utc_def)
  note th = sweep_deletes_expired_only [of sweep_ok sc_two]
  have loop: "cleanupLoop sweep_ok [] sc_two = cleanupExpiredConnections sweep_ok sc_two"
    using th rd0 by blast
  have f: "connections (db (cleanupExpiredConnections sweep_ok sc_two)) =
        filter (\<lambda>row. instant (sw_now sweep_ok) - retentionDays sc_two * 86400000000000
                        \<le> instant (ConnectedAt row))
          (connections (db sc_two))"
    using th ok lib same by blast
  have "map ID (filter (\<lambda>row. instant (sw_now sweep_ok) - retentionDays sc_two * 86400000000000
                        \<le> instant (ConnectedAt row)) (connections (db sc_two))) = [2]"
    unfolding now rd by (simp add: sc_two_eval sc_tracked_eval utc_def)
  then have del: "map ID (connections (db (cleanupExpiredConnections sweep_ok sc_two))) = [2]"
    by (simp only: f)
  have agg: "server_stats (db (cleanupExpiredConnections sweep_ok sc_two)) = server_stats (db sc_two)"
    "geo_stats (db (cleanupExpiredConnections sweep_ok sc_two)) = geo_stats (db sc_two)"
    using th by blast+
  have failed: "cleanupExpiredConnections sweep_failed sc_two = sc_two"
    using sweep_deletes_expired_only [of sweep_failed sc_two] nok by blast
  from ok lib rd before now del agg failed show ?thesis unfolding loop by blast
qed

section \<open>Properties of closing a tracker\<close>

subsection \<open>What the upsert of a country row changes\<close>





subsection \<open>The first close and the later ones\<close>





end
